theory Spec2Isabelle
  imports Complex_Main "HOL-Library.Sublist"
begin

section \<open>Numbers, JavaScript values and errors\<close>

text \<open>
  The plugins never compute on JavaScript numbers: amounts are decimal strings handled by
  the \<^verbatim>\<open>biggystring\<close> package. A native amount (a number string that the code hands to
  \<^verbatim>\<open>lt\<close> or \<^verbatim>\<open>floor\<close>) is represented by the decimal it denotes, with its sign:
  \<open>Decimal m s\<close> is \<open>m / 10 ^ s\<close>, so \<^verbatim>\<open>"1.005"\<close> is \<open>Decimal 1005 3\<close> and \<^verbatim>\<open>"-1.5"\<close> is
  \<open>Decimal (- 15) 1\<close>. A denominated amount only travels between the wallet runtime and
  the backend and stays text.
\<close>

datatype decimal = Decimal (mant: int) (scale: nat)

definition dec_val :: "decimal \<Rightarrow> rat" where
  "dec_val d = of_int (mant d) / 10 ^ scale d"


text \<open>\<^verbatim>\<open>lt(a, b)\<close> of biggystring: exact comparison, by cross multiplication.\<close>

definition lt :: "decimal \<Rightarrow> decimal \<Rightarrow> bool" where
  "lt a b = (mant a * 10 ^ scale b < mant b * 10 ^ scale a)"

text \<open>
  \<^verbatim>\<open>floor(x, precision)\<close> of biggystring works on the digits and leaves the sign alone: the
  digits after the decimal point are cut off and the last \<open>precision\<close> digits before it
  are replaced by zeros, so \<^verbatim>\<open>floor('1234.5', 2)\<close> is \<^verbatim>\<open>'1200'\<close>, \<^verbatim>\<open>floor('1.9', 0)\<close> is
  \<^verbatim>\<open>'1'\<close> and \<^verbatim>\<open>floor('-1.5', 0)\<close> is \<^verbatim>\<open>'-1'\<close>: it truncates toward zero. The result is an
  integer string.
\<close>

definition floor_big :: "decimal \<Rightarrow> nat \<Rightarrow> decimal" where
  "floor_big x precision =
     Decimal (sgn (mant x) * ((\<bar>mant x\<bar> div 10 ^ (scale x + precision)) * 10 ^ precision)) 0"

text \<open>A number in a template literal: its decimal digits.\<close>

definition digit_char :: "nat \<Rightarrow> char" where
  "digit_char d = char_of (48 + d)"

fun string_of_nat :: "nat \<Rightarrow> string" where
  "string_of_nat n =
     (if n < 10 then [digit_char n] else string_of_nat (n div 10) @ [digit_char (n mod 10)])"

declare string_of_nat.simps [simp del]

text \<open>
  JavaScript values as far as JSON goes, and \<^verbatim>\<open>undefined\<close> for what reading a missing
  property gives. A number is kept as the text its \<^verbatim>\<open>toString()\<close> gives, the only thing
  the code does with one. An object is its list of properties, in order.
\<close>

datatype jsvalue =
    JUndefined
  | JNull
  | JBool bool
  | JNum string
  | JStr string
  | JArr "jsvalue list"
  | JObj "(string \<times> jsvalue) list"

text \<open>\<^verbatim>\<open>raw[key]\<close> for the property names the cleaners read.\<close>

fun get_property :: "jsvalue \<Rightarrow> string \<Rightarrow> jsvalue" where
  "get_property (JObj kvs) k = (case map_of kvs k of Some v \<Rightarrow> v | None \<Rightarrow> JUndefined)"
| "get_property _ k = JUndefined"

text \<open>\<^verbatim>\<open>JSON.stringify\<close> leaves out the properties whose value is \<^verbatim>\<open>undefined\<close>; the
  request body is represented by the value its text denotes.\<close>

definition JSON_stringify :: "(string \<times> jsvalue) list \<Rightarrow> jsvalue" where
  "JSON_stringify params = JObj (filter (\<lambda>kv. snd kv \<noteq> JUndefined) params)"

datatype direction = Dir_from | Dir_to

record swap_info =
  pluginId :: string
  displayName :: string
  supportEmail :: string
  isDex :: "bool option"
  orderUri :: "string option"

text \<open>
  What a promise rejects with or a function throws. \<open>SwapCurrencyError\<close> stands for both of
  its constructor forms (the request of the newer form is represented by its two currency
  codes). \<open>Rejected\<close> is a failure that comes from a collaborator (the wallet runtime, the
  network, the body's JSON parser) with its reason; \<open>TypeError\<close> is what a cleaner throws.
\<close>

datatype error =
    SwapCurrencyError swap_info string string
  | SwapBelowLimitError swap_info decimal direction
  | SwapAboveLimitError swap_info decimal direction
  | InsufficientFundsError
  | Error string
  | TypeError
  | Rejected string

section \<open>The network and the \<^verbatim>\<open>call\<close> helper of the godex plugin\<close>

record http_request =
  url :: string
  http_method :: string
  body :: jsvalue
  headers :: "(string \<times> string) list"

text \<open>A response: the two fields the code reads, and what \<^verbatim>\<open>response.json()\<close> resolves
  to (\<open>None\<close> when it rejects).\<close>

record http_response =
  ok :: bool
  status :: nat
  json :: "jsvalue option"

text \<open>
  The network is any function of the requests made so far and the request at hand: it
  either rejects (a transport failure, \<open>Inl\<close>) or answers. The state threaded through the
  code is the list of requests made, oldest first.
\<close>

type_synonym fetch = "http_request list \<Rightarrow> http_request \<Rightarrow> string + http_response"

type_synonym 'a io = "http_request list \<Rightarrow> (error + 'a) \<times> http_request list"

definition returnE :: "'a \<Rightarrow> 'a io" where
  "returnE x tr = (Inr x, tr)"

definition throwE :: "error \<Rightarrow> 'a io" where
  "throwE e tr = (Inl e, tr)"

definition bindE :: "'a io \<Rightarrow> ('a \<Rightarrow> 'b io) \<Rightarrow> 'b io" where
  "bindE m f tr = (case m tr of (Inl e, tr') \<Rightarrow> (Inl e, tr') | (Inr x, tr') \<Rightarrow> f x tr')"

text \<open>Awaiting a collaborator's promise, and running a function that may throw.\<close>

definition await :: "string + 'a \<Rightarrow> 'a io" where
  "await p = (case p of Inl reason \<Rightarrow> throwE (Rejected reason) | Inr x \<Rightarrow> returnE x)"

definition attempt :: "error + 'a \<Rightarrow> 'a io" where
  "attempt r = (case r of Inl e \<Rightarrow> throwE e | Inr x \<Rightarrow> returnE x)"

definition fetchCors_io :: "fetch \<Rightarrow> http_request \<Rightarrow> http_response io" where
  "fetchCors_io fetchCors req tr =
     (case fetchCors tr req of
        Inl reason \<Rightarrow> (Inl (Rejected reason), tr @ [req])
      | Inr response \<Rightarrow> (Inr response, tr @ [req]))"

definition response_json :: "http_response \<Rightarrow> jsvalue io" where
  "response_json response =
     (case json response of None \<Rightarrow> throwE (Rejected ''invalid json'') | Some j \<Rightarrow> returnE j)"

definition godex_swapInfo :: swap_info where
  "godex_swapInfo =
     \<lparr>pluginId = ''godex'', displayName = ''Godex'', supportEmail = ''support@godex.io'',
      isDex = Some False, orderUri = None\<rparr>"

definition godex_headers :: "(string \<times> string) list" where
  "godex_headers = [(''Content-Type'', ''application/json''), (''Accept'', ''application/json'')]"

text \<open>
  \<^verbatim>\<open>call(url, request, data)\<close>. The request only serves to build the
  \<open>SwapCurrencyError\<close>, so its two currency codes are passed.
\<close>

definition call :: "swap_info \<Rightarrow> fetch \<Rightarrow> string \<Rightarrow> string \<times> string \<Rightarrow> (string \<times> jsvalue) list \<Rightarrow> jsvalue io" where
  "call swapInfo fetchCors u codes params =
     bindE (fetchCors_io fetchCors
              \<lparr>url = u, http_method = ''POST'', body = JSON_stringify params, headers = godex_headers\<rparr>)
       (\<lambda>response.
          if \<not> ok response then
            (if status response = 422 then throwE (SwapCurrencyError swapInfo (fst codes) (snd codes))
             else throwE (Error (''godex returned error code '' @ string_of_nat (status response))))
          else response_json response)"

section \<open>Cleaners\<close>

text \<open>
  The \<^verbatim>\<open>cleaners\<close> package: a cleaner returns the cleaned value or throws a \<open>TypeError\<close>
  (its message, which names the place of the mismatch, is not modelled).
\<close>

definition asString :: "jsvalue \<Rightarrow> error + string" where
  "asString raw = (case raw of JStr s \<Rightarrow> Inr s | _ \<Rightarrow> Inl TypeError)"

definition asNumber :: "jsvalue \<Rightarrow> error + string" where
  "asNumber raw = (case raw of JNum t \<Rightarrow> Inr t | _ \<Rightarrow> Inl TypeError)"

definition asNull :: "jsvalue \<Rightarrow> error + unit" where
  "asNull raw = (case raw of JNull \<Rightarrow> Inr () | _ \<Rightarrow> Inl TypeError)"

definition asEither :: "(jsvalue \<Rightarrow> error + 'a) \<Rightarrow> (jsvalue \<Rightarrow> error + 'b) \<Rightarrow> jsvalue \<Rightarrow> error + ('a + 'b)" where
  "asEither a b raw =
     (case a raw of
        Inr x \<Rightarrow> Inr (Inl x)
      | Inl _ \<Rightarrow> (case b raw of Inr y \<Rightarrow> Inr (Inr y) | Inl e \<Rightarrow> Inl e))"

definition asMaybe :: "(jsvalue \<Rightarrow> error + 'a) \<Rightarrow> jsvalue \<Rightarrow> 'a option" where
  "asMaybe cleaner raw = (case cleaner raw of Inr x \<Rightarrow> Some x | Inl _ \<Rightarrow> None)"

fun clean_all :: "(jsvalue \<Rightarrow> error + 'a) \<Rightarrow> jsvalue list \<Rightarrow> error + 'a list" where
  "clean_all cleaner [] = Inr []"
| "clean_all cleaner (x # xs) =
     (case cleaner x of
        Inl e \<Rightarrow> Inl e
      | Inr y \<Rightarrow> (case clean_all cleaner xs of Inl e \<Rightarrow> Inl e | Inr ys \<Rightarrow> Inr (y # ys)))"

definition asArray :: "(jsvalue \<Rightarrow> error + 'a) \<Rightarrow> jsvalue \<Rightarrow> error + 'a list" where
  "asArray cleaner raw = (case raw of JArr xs \<Rightarrow> clean_all cleaner xs | _ \<Rightarrow> Inl TypeError)"

text \<open>The test \<^verbatim>\<open>asObject\<close> starts with: \<^verbatim>\<open>typeof raw === 'object' && raw != null\<close>,
  which an array passes too.\<close>

definition is_object :: "jsvalue \<Rightarrow> bool" where
  "is_object raw = (case raw of JObj _ \<Rightarrow> True | JArr _ \<Rightarrow> True | _ \<Rightarrow> False)"

text \<open>\<^verbatim>\<open>asNumberString\<close> of \<^verbatim>\<open>swap/types.ts\<close>: a string or a number, as a string.\<close>

definition asNumberString :: "jsvalue \<Rightarrow> error + string" where
  "asNumberString raw =
     (case asEither asString asNumber raw of
        Inl e \<Rightarrow> Inl e
      | Inr (Inl s) \<Rightarrow> Inr s
      | Inr (Inr t) \<Rightarrow> Inr t)"

text \<open>\<^verbatim>\<open>asObject({ network: asString })\<close>; the cleaned object has one field, which stands
  for it.\<close>

definition asNetwork :: "jsvalue \<Rightarrow> error + string" where
  "asNetwork raw = (if \<not> is_object raw then Inl TypeError else asString (get_property raw ''network''))"

record api_info =
  min_amount :: string
  networks_from :: "string list option"
  networks_to :: "string list option"

definition asApiInfo :: "jsvalue \<Rightarrow> error + api_info" where
  "asApiInfo raw =
     (if \<not> is_object raw then Inl TypeError
      else case asNumberString (get_property raw ''min_amount'') of
        Inl e \<Rightarrow> Inl e
      | Inr m \<Rightarrow>
          Inr \<lparr>min_amount = m,
               networks_from = asMaybe (asArray asNetwork) (get_property raw ''networks_from''),
               networks_to = asMaybe (asArray asNetwork) (get_property raw ''networks_to'')\<rparr>)"

record quote_info =
  transaction_id :: string
  deposit :: string
  deposit_extra_id :: "string option"
  deposit_amount :: string
  withdrawal :: string
  withdrawal_extra_id :: "string option"
  withdrawal_amount :: string
  return_address :: string
  return_extra_id :: "string option"

text \<open>\<^verbatim>\<open>asEither(asString, asNull)\<close>: a string, or \<^verbatim>\<open>null\<close> (\<open>None\<close>).\<close>

definition asStringOrNull :: "jsvalue \<Rightarrow> error + string option" where
  "asStringOrNull raw =
     (case asEither asString asNull raw of
        Inl e \<Rightarrow> Inl e
      | Inr (Inl s) \<Rightarrow> Inr (Some s)
      | Inr (Inr _) \<Rightarrow> Inr None)"

definition bindR :: "error + 'a \<Rightarrow> ('a \<Rightarrow> error + 'b) \<Rightarrow> error + 'b" where
  "bindR r f = (case r of Inl e \<Rightarrow> Inl e | Inr x \<Rightarrow> f x)"

definition asQuoteInfo :: "jsvalue \<Rightarrow> error + quote_info" where
  "asQuoteInfo raw =
     (if \<not> is_object raw then Inl TypeError
      else
        bindR (asString (get_property raw ''transaction_id'')) (\<lambda>tid.
        bindR (asString (get_property raw ''deposit'')) (\<lambda>dep.
        bindR (asStringOrNull (get_property raw ''deposit_extra_id'')) (\<lambda>dep_extra.
        bindR (asString (get_property raw ''deposit_amount'')) (\<lambda>dep_amount.
        bindR (asString (get_property raw ''withdrawal'')) (\<lambda>wd.
        bindR (asStringOrNull (get_property raw ''withdrawal_extra_id'')) (\<lambda>wd_extra.
        bindR (asString (get_property raw ''withdrawal_amount'')) (\<lambda>wd_amount.
        bindR (asString (get_property raw ''return'')) (\<lambda>ret.
        bindR (asStringOrNull (get_property raw ''return_extra_id'')) (\<lambda>ret_extra.
          Inr \<lparr>transaction_id = tid, deposit = dep, deposit_extra_id = dep_extra,
               deposit_amount = dep_amount, withdrawal = wd, withdrawal_extra_id = wd_extra,
               withdrawal_amount = wd_amount, return_address = ret,
               return_extra_id = ret_extra\<rparr>))))))))))"

section \<open>Wallets, requests and spends\<close>

text \<open>An \<^verbatim>\<open>EdgeTransaction\<close>, with the fields the plugins read or write.\<close>

record transaction =
  txid :: string
  tx_nativeAmount :: string
  networkFee :: string
  parentNetworkFee :: "string option"
  signedTx :: string

text \<open>
  An \<^verbatim>\<open>EdgeTransaction\<close> is a mutable object, and a method of the wallet may return the very
  object it was given. Where transactions are signed, broadcast and written to, they are
  therefore references into a store that holds the fields of every object.
\<close>

type_synonym tx_ref = nat

type_synonym store = "tx_ref \<Rightarrow> transaction"

text \<open>A call made on the wallet: the object it was given and what it answered.\<close>

datatype wallet_event =
    SignTx tx_ref "string + tx_ref"
  | BroadcastTx tx_ref "string + tx_ref"
  | SaveTx tx_ref "string + unit"

record address_info =
  publicAddress :: string
  legacyAddress :: "string option"

record memo =
  memo_type :: string
  memo_value :: string

record spend_target =
  st_nativeAmount :: decimal
  st_publicAddress :: string
  st_uniqueIdentifier :: "string option"

record swap_asset =
  asset_pluginId :: string
  asset_tokenId :: "string option"
  asset_nativeAmount :: decimal

text \<open>\<^verbatim>\<open>savedAction\<close> of the current godex plugin and \<^verbatim>\<open>swapData\<close> of the earlier one.\<close>

record saved_action =
  sa_actionType :: string
  sa_swapInfo :: swap_info
  sa_orderId :: string
  sa_orderUri :: string
  sa_isEstimate :: bool
  sa_toAsset :: swap_asset
  sa_fromAsset :: swap_asset
  sa_payoutAddress :: string
  sa_payoutWalletId :: string
  sa_refundAddress :: string

record swap_data =
  sd_orderId :: string
  sd_orderUri :: string
  sd_isEstimate :: bool
  sd_payoutAddress :: string
  sd_payoutCurrencyCode :: string
  sd_payoutNativeAmount :: decimal
  sd_payoutWalletId :: string
  sd_plugin :: swap_info
  sd_refundAddress :: string

record spend_info =
  sp_tokenId :: "string option"
  sp_currencyCode :: "string option"
  sp_spendTargets :: "spend_target list"
  sp_memos :: "memo list"
  sp_networkFeeOption :: string
  sp_assetActionType :: "string option"
  sp_savedAction :: "saved_action option"
  sp_swapData :: "swap_data option"

text \<open>
  An \<^verbatim>\<open>EdgeCurrencyWallet\<close>: the wallet runtime is a collaborator, so its methods are
  fields, any functions. A method's promise resolves (\<open>Inr\<close>) or rejects with a reason
  (\<open>Inl\<close>). Signing, broadcasting and saving take the calls made on the wallet before, the
  store and the object they are given; they answer, and they may write to the store: sign
  the object in place and return it, or make a new object and return that one.
\<close>

record wallet =
  wallet_id :: string
  wallet_pluginId :: string
  wallet_currencyCode :: string
  nativeToDenomination :: "decimal \<Rightarrow> string \<Rightarrow> string + string"
  denominationToNative :: "string \<Rightarrow> string \<Rightarrow> string + decimal"
  getReceiveAddress :: "string \<Rightarrow> string + address_info"
  makeSpend :: "spend_info \<Rightarrow> string + transaction"
  signTx :: "wallet_event list \<Rightarrow> store \<Rightarrow> tx_ref \<Rightarrow> (string + tx_ref) \<times> store"
  broadcastTx :: "wallet_event list \<Rightarrow> store \<Rightarrow> tx_ref \<Rightarrow> (string + tx_ref) \<times> store"
  saveTx :: "wallet_event list \<Rightarrow> store \<Rightarrow> tx_ref \<Rightarrow> (string + unit) \<times> store"

datatype quote_for = For_from | For_max | For_to

text \<open>\<^verbatim>\<open>EdgeSwapRequestPlugin\<close> of \<^verbatim>\<open>swap/types.ts\<close>.\<close>

record request =
  fromWallet :: wallet
  toWallet :: wallet
  fromTokenId :: "string option"
  toTokenId :: "string option"
  nativeAmount :: decimal
  quoteFor :: quote_for
  fromCurrencyCode :: string
  toCurrencyCode :: string

record swap_order =
  order_request :: request
  order_spendInfo :: spend_info
  order_swapInfo :: swap_info
  order_fromNativeAmount :: decimal
  order_expirationDate :: nat

section \<open>The currency code policy\<close>

text \<open>
  \<^verbatim>\<open>checkInvalidCodes\<close>, \<^verbatim>\<open>checkWhitelistedMainnetCodes\<close> and
  \<^verbatim>\<open>getCodesWithTranscription\<close> are imported from \<^verbatim>\<open>util/swapHelpers\<close>, which is not
  among the sources; the tables they are applied to are. A network is the wallet's
  \<^verbatim>\<open>currencyInfo.pluginId\<close>.
\<close>

datatype disallowed = AllCodes | Codes "string list"

record invalid_currency_codes =
  invalid_from :: "(string \<times> disallowed) list"
  invalid_to :: "(string \<times> disallowed) list"

definition INVALID_CURRENCY_CODES :: invalid_currency_codes where
  "INVALID_CURRENCY_CODES =
     \<lparr>invalid_from = [(''digibyte'', AllCodes)], invalid_to = [(''zcash'', Codes [''ZEC''])]\<rparr>"

definition MAINNET_CODE_TRANSCRIPTION :: "(string \<times> string) list" where
  "MAINNET_CODE_TRANSCRIPTION =
     [(''algorand'', ''ALGO''), (''arbitrum'', ''ARBITRUM''), (''avalanche'', ''AVAXC''),
      (''binance'', ''BNB''), (''binancesmartchain'', ''BSC''), (''bitcoin'', ''BTC''),
      (''bitcoincash'', ''BCH''), (''cardano'', ''ADA''), (''celo'', ''CELO''),
      (''cosmoshub'', ''ATOM''), (''dash'', ''DASH''), (''digibyte'', ''DGB''),
      (''dogecoin'', ''DOGE''), (''eos'', ''EOS''), (''ethereumclassic'', ''ETC''),
      (''ethereum'', ''ETH''), (''fantom'', ''FTM''), (''filecoin'', ''FIL''),
      (''hedera'', ''HBAR''), (''litecoin'', ''LTC''), (''optimism'', ''OPTIMISM''),
      (''monero'', ''XMR''), (''polygon'', ''MATIC''), (''polkadot'', ''DOT''),
      (''qtum'', ''QTUM''), (''ravencoin'', ''RVN''), (''rsk'', ''RSK''),
      (''stellar'', ''XLM''), (''solana'', ''SOL''), (''tezos'', ''XTZ''),
      (''tron'', ''TRX''), (''ton'', ''TON''), (''zcash'', ''ZEC''), (''zcoin'', ''FIRO'')]"

definition MAINNET_CODE_TRANSCRIPTION_legacy :: "(string \<times> string) list" where
  "MAINNET_CODE_TRANSCRIPTION_legacy =
     [(''rsk'', ''RSK''), (''binancesmartchain'', ''BSC''), (''avalanche'', ''AVAXC'')]"

text \<open>
  Modelled from the spec: the body of \<^verbatim>\<open>checkInvalidCodes\<close> is missing. Section 4.2: a leg
  is disallowed if its network is wholly blacklisted or its code appears in the blacklisted
  set for that network; a pair that is not allowed is an unsupported pair.
\<close>

definition leg_disallowed :: "(string \<times> disallowed) list \<Rightarrow> string \<Rightarrow> string \<Rightarrow> bool" where
  "leg_disallowed table network code =
     (case map_of table network of
        None \<Rightarrow> False
      | Some AllCodes \<Rightarrow> True
      | Some (Codes cs) \<Rightarrow> code \<in> set cs)"

text \<open>Modelled from the spec: \<^verbatim>\<open>isPairAllowed(policy, request)\<close> of section 4.2, the test
  of the missing \<^verbatim>\<open>checkInvalidCodes\<close>.\<close>

definition isPairAllowed :: "invalid_currency_codes \<Rightarrow> request \<Rightarrow> bool" where
  "isPairAllowed policy request =
     (\<not> leg_disallowed (invalid_from policy) (wallet_pluginId (fromWallet request))
          (fromCurrencyCode request) \<and>
      \<not> leg_disallowed (invalid_to policy) (wallet_pluginId (toWallet request))
          (toCurrencyCode request))"

text \<open>Modelled from the spec: the missing \<^verbatim>\<open>checkInvalidCodes\<close> signals the unsupported-pair
  error when the pair is not allowed (sections 4.2 and 7).\<close>

definition checkInvalidCodes :: "invalid_currency_codes \<Rightarrow> request \<Rightarrow> swap_info \<Rightarrow> error + unit" where
  "checkInvalidCodes policy request swapInfo =
     (if isPairAllowed policy request then Inr ()
      else Inl (SwapCurrencyError swapInfo (fromCurrencyCode request) (toCurrencyCode request)))"

text \<open>Modelled from the spec: the missing \<^verbatim>\<open>checkWhitelistedMainnetCodes\<close> is
  \<^verbatim>\<open>enforceWhitelistedNetworks\<close> of section 4.2: it signals the unsupported-pair error when
  either leg's network is not present in the transcription table at all.\<close>

definition checkWhitelistedMainnetCodes :: "(string \<times> string) list \<Rightarrow> request \<Rightarrow> swap_info \<Rightarrow> error + unit" where
  "checkWhitelistedMainnetCodes table request swapInfo =
     (if map_of table (wallet_pluginId (fromWallet request)) = None \<or>
         map_of table (wallet_pluginId (toWallet request)) = None
      then Inl (SwapCurrencyError swapInfo (fromCurrencyCode request) (toCurrencyCode request))
      else Inr ())"

text \<open>Modelled from the spec: \<^verbatim>\<open>transcribe(policy, networkId)\<close> of section 4.2 returns the
  mapped label, or the unmodified wallet network id if absent.\<close>

definition transcribe :: "(string \<times> string) list \<Rightarrow> string \<Rightarrow> string" where
  "transcribe table networkId = (case map_of table networkId of Some label \<Rightarrow> label | None \<Rightarrow> networkId)"

text \<open>Modelled from the spec: the missing \<^verbatim>\<open>getCodesWithTranscription\<close> gives both legs'
  transcribed networks, \<^verbatim>\<open>fromMainnetCode\<close> and \<^verbatim>\<open>toMainnetCode\<close>.\<close>

definition getCodesWithTranscription :: "request \<Rightarrow> (string \<times> string) list \<Rightarrow> string \<times> string" where
  "getCodesWithTranscription request table =
     (transcribe table (wallet_pluginId (fromWallet request)),
      transcribe table (wallet_pluginId (toWallet request)))"

section \<open>The godex plugin\<close>

text \<open>
  What \<^verbatim>\<open>makeGodexPlugin\<close> closes over: the network, the affiliate key of the init options
  and the clock reading \<^verbatim>\<open>Date.now()\<close> gives; and the two functions of \<^verbatim>\<open>util/utils\<close>
  that the plugin calls and the sources do not hold, as they answer.
\<close>

record godex_env =
  fetchCors :: fetch
  apiKey :: "string option"
  date_now :: nat
  util_getAddress :: "wallet \<Rightarrow> string + string"
  util_memoType :: "string \<Rightarrow> string"

record swap_opts =
  promoCode :: "string option"

definition orderUri_godex :: string where
  "orderUri_godex = ''https://godex.io/exchange/waiting/''"

definition uri :: string where
  "uri = ''https://api.godex.io/api/v1/''"

definition expirationMs :: nat where
  "expirationMs = 1000 * 60"

definition toUpperCase :: "string \<Rightarrow> string" where
  "toUpperCase s =
     map (\<lambda>c. let n = (of_char c :: nat) in if 97 \<le> n \<and> n \<le> 122 then char_of (n - 32) else c) s"

definition opt_str :: "string option \<Rightarrow> jsvalue" where
  "opt_str v = (case v of None \<Rightarrow> JUndefined | Some s \<Rightarrow> JStr s)"

text \<open>\<^verbatim>\<open>networks?.find(network => network.network === code) == null\<close>\<close>

definition network_missing :: "string list option \<Rightarrow> string \<Rightarrow> bool" where
  "network_missing networks code =
     (case networks of None \<Rightarrow> True | Some ns \<Rightarrow> find (\<lambda>network. network = code) ns = None)"

text \<open>The requests that create an order: those to \<^verbatim>\<open>transaction\<close> or
  \<^verbatim>\<open>transaction-revert\<close>, with or without a promo code.\<close>

definition is_order_endpoint :: "http_request \<Rightarrow> bool" where
  "is_order_endpoint r = prefix (uri @ ''transaction'') (url r)"

text \<open>
  \<^verbatim>\<open>fetchSwapQuoteInner\<close> is given in two parts. This is the second, from the request
  that creates the order to the end, as a function of the variables it reads.
\<close>

definition fetchSwapQuoteInner_order ::
  "godex_env \<Rightarrow> request \<Rightarrow> swap_opts \<Rightarrow> string \<Rightarrow> string \<Rightarrow> string \<Rightarrow> string \<Rightarrow> jsvalue \<Rightarrow> jsvalue \<Rightarrow>
   swap_order io" where
  "fetchSwapQuoteInner_order env request opts fromAddress toAddress fromMainnetCode toMainnetCode
       fromAmount toAmount =
     (let reverseQuote = (quoteFor request = For_to);
          codes = (fromCurrencyCode request, toCurrencyCode request)
      in
      bindE (call godex_swapInfo (fetchCors env)
              (uri @ (if reverseQuote then ''transaction-revert'' else ''transaction'') @
               (case promoCode opts of Some promo \<Rightarrow> ''?promo='' @ promo | None \<Rightarrow> []))
              codes
              [(''deposit_amount'', if reverseQuote then JUndefined else fromAmount),
               (''withdrawal_amount'', if reverseQuote then toAmount else JUndefined),
               (''coin_from'', JStr (fromCurrencyCode request)),
               (''coin_to'', JStr (toCurrencyCode request)),
               (''withdrawal'', JStr toAddress),
               (''return'', JStr fromAddress),
               (''return_extra_id'', JNull),
               (''withdrawal_extra_id'', JNull),
               (''affiliate_id'', opt_str (apiKey env)),
               (''type'', JStr ''edge''),
               (''isEstimate'', JBool False),
               (''coin_from_network'', JStr fromMainnetCode),
               (''coin_to_network'', JStr toMainnetCode)]) (\<lambda>sendReply.
      bindE (attempt (asQuoteInfo sendReply)) (\<lambda>quoteInfo.
      bindE (await (denominationToNative (fromWallet request) (deposit_amount quoteInfo)
                      (fromCurrencyCode request))) (\<lambda>depositNative.
      let fromNativeAmount = floor_big depositNative 0 in
      bindE (await (denominationToNative (toWallet request) (withdrawal_amount quoteInfo)
                      (toCurrencyCode request))) (\<lambda>withdrawalNative.
      let toNativeAmount = floor_big withdrawalNative 0;
          memos =
            (case deposit_extra_id quoteInfo of
               None \<Rightarrow> []
             | Some extra_id \<Rightarrow>
                 [\<lparr>memo_type = util_memoType env (wallet_pluginId (fromWallet request)),
                   memo_value = extra_id\<rparr>]);
          spendInfo =
            \<lparr>sp_tokenId = fromTokenId request,
             sp_currencyCode = None,
             sp_spendTargets =
               [\<lparr>st_nativeAmount = fromNativeAmount, st_publicAddress = deposit quoteInfo,
                 st_uniqueIdentifier = None\<rparr>],
             sp_memos = memos,
             sp_networkFeeOption =
               (if toUpperCase (fromCurrencyCode request) = ''BTC'' then ''high'' else ''standard''),
             sp_assetActionType = Some ''swap'',
             sp_savedAction = Some
               \<lparr>sa_actionType = ''swap'',
                sa_swapInfo = godex_swapInfo,
                sa_orderId = transaction_id quoteInfo,
                sa_orderUri = orderUri_godex @ transaction_id quoteInfo,
                sa_isEstimate = False,
                sa_toAsset =
                  \<lparr>asset_pluginId = wallet_pluginId (toWallet request),
                   asset_tokenId = toTokenId request, asset_nativeAmount = toNativeAmount\<rparr>,
                sa_fromAsset =
                  \<lparr>asset_pluginId = wallet_pluginId (fromWallet request),
                   asset_tokenId = fromTokenId request, asset_nativeAmount = fromNativeAmount\<rparr>,
                sa_payoutAddress = toAddress,
                sa_payoutWalletId = wallet_id (toWallet request),
                sa_refundAddress = fromAddress\<rparr>,
             sp_swapData = None\<rparr>
      in
      returnE
        \<lparr>order_request = request, order_spendInfo = spendInfo, order_swapInfo = godex_swapInfo,
         order_fromNativeAmount = fromNativeAmount,
         order_expirationDate = date_now env + expirationMs\<rparr>)))))"

text \<open>
  \<^verbatim>\<open>fetchSwapQuoteInner\<close>, the first part: up to the checks of the minimum and of the
  networks. The two address lookups of \<^verbatim>\<open>Promise.all\<close> are taken in order; calls to
  \<^verbatim>\<open>log\<close> are left out.
\<close>

definition fetchSwapQuoteInner :: "godex_env \<Rightarrow> request \<Rightarrow> swap_opts \<Rightarrow> swap_order io" where
  "fetchSwapQuoteInner env request opts =
     (let reverseQuote = (quoteFor request = For_to);
          codes = (fromCurrencyCode request, toCurrencyCode request)
      in
      bindE (await (util_getAddress env (fromWallet request))) (\<lambda>fromAddress.
      bindE (await (util_getAddress env (toWallet request))) (\<lambda>toAddress.
      case getCodesWithTranscription request MAINNET_CODE_TRANSCRIPTION of
        (fromMainnetCode, toMainnetCode) \<Rightarrow>
      bindE (await
              (if quoteFor request = For_from
               then nativeToDenomination (fromWallet request) (nativeAmount request)
                      (fromCurrencyCode request)
               else nativeToDenomination (toWallet request) (nativeAmount request)
                      (toCurrencyCode request))) (\<lambda>quoteAmount.
      let quoteParams =
            [(''from'', JStr (fromCurrencyCode request)),
             (''to'', JStr (toCurrencyCode request)),
             (''amount'', JStr quoteAmount)];
          fromAmount = (if quoteFor request = For_from then JStr quoteAmount else JUndefined);
          toAmount = (if quoteFor request = For_from then JUndefined else JStr quoteAmount);
          endpoint = (if quoteFor request = For_from then ''info'' else ''info-revert'')
      in
      bindE (call godex_swapInfo (fetchCors env) (uri @ endpoint) codes quoteParams) (\<lambda>response.
      bindE (attempt (asApiInfo response)) (\<lambda>reply.
      bindE (await
              (if reverseQuote
               then denominationToNative (toWallet request) (min_amount reply)
                      (toCurrencyCode request)
               else denominationToNative (fromWallet request) (min_amount reply)
                      (fromCurrencyCode request))) (\<lambda>nativeMin.
      if lt (nativeAmount request) nativeMin
      then throwE (SwapBelowLimitError godex_swapInfo nativeMin
                     (if reverseQuote then Dir_to else Dir_from))
      else if network_missing (networks_from reply) fromMainnetCode \<or>
              network_missing (networks_to reply) toMainnetCode
      then throwE (SwapCurrencyError godex_swapInfo (fst codes) (snd codes))
      else
      fetchSwapQuoteInner_order env request opts fromAddress toAddress fromMainnetCode
        toMainnetCode fromAmount toAmount)))))))"

text \<open>
  \<^verbatim>\<open>fetchSwapQuote\<close> of the plugin. \<^verbatim>\<open>convertRequest\<close>, \<^verbatim>\<open>getMaxSwappable\<close> and
  \<^verbatim>\<open>makeSwapPluginQuote\<close> are imported from files that are not among the sources: they are
  parameters, any functions of these types.
\<close>

definition fetchSwapQuote ::
  "('r \<Rightarrow> request) \<Rightarrow>
   ((request \<Rightarrow> swap_opts \<Rightarrow> swap_order io) \<Rightarrow> request \<Rightarrow> swap_opts \<Rightarrow> request io) \<Rightarrow>
   (swap_order \<Rightarrow> 'q io) \<Rightarrow> godex_env \<Rightarrow> 'r \<Rightarrow> swap_opts \<Rightarrow> 'q io" where
  "fetchSwapQuote convertRequest getMaxSwappable makeSwapPluginQuote env req opts =
     (let request = convertRequest req in
      bindE (attempt (checkInvalidCodes INVALID_CURRENCY_CODES request godex_swapInfo)) (\<lambda>_.
      bindE (attempt (checkWhitelistedMainnetCodes MAINNET_CODE_TRANSCRIPTION request godex_swapInfo)) (\<lambda>_.
      bindE (getMaxSwappable (fetchSwapQuoteInner env) request opts) (\<lambda>newRequest.
      bindE (fetchSwapQuoteInner env newRequest opts) (\<lambda>swapOrder.
      makeSwapPluginQuote swapOrder)))))"

section \<open>The earlier godex plugin\<close>

text \<open>
  The file without a name holds an earlier version of the godex plugin, with its own
  \<^verbatim>\<open>getAddress\<close> and a \<^verbatim>\<open>fetchSwapQuote\<close> that is one function. Its definitions carry the
  suffix \<open>legacy\<close> where the name is taken.
\<close>

definition godex_swapInfo_legacy :: swap_info where
  "godex_swapInfo_legacy =
     \<lparr>pluginId = ''godex'', displayName = ''Godex'', supportEmail = ''support@godex.io'',
      isDex = None, orderUri = None\<rparr>"

record api_info_legacy =
  li_amount :: string
  li_min_amount :: string

definition asApiInfo_legacy :: "jsvalue \<Rightarrow> error + api_info_legacy" where
  "asApiInfo_legacy raw =
     (if \<not> is_object raw then Inl TypeError
      else
        bindR (asString (get_property raw ''amount'')) (\<lambda>a.
        bindR (asString (get_property raw ''min_amount'')) (\<lambda>m.
          Inr \<lparr>li_amount = a, li_min_amount = m\<rparr>)))"

record quote_info_legacy =
  lq_transaction_id :: string
  lq_deposit :: string
  lq_deposit_extra_id :: "string option"
  lq_withdrawal :: string
  lq_withdrawal_extra_id :: "string option"
  lq_return :: string
  lq_return_extra_id :: "string option"

definition asQuoteInfo_legacy :: "jsvalue \<Rightarrow> error + quote_info_legacy" where
  "asQuoteInfo_legacy raw =
     (if \<not> is_object raw then Inl TypeError
      else
        bindR (asString (get_property raw ''transaction_id'')) (\<lambda>tid.
        bindR (asString (get_property raw ''deposit'')) (\<lambda>dep.
        bindR (asStringOrNull (get_property raw ''deposit_extra_id'')) (\<lambda>dep_extra.
        bindR (asString (get_property raw ''withdrawal'')) (\<lambda>wd.
        bindR (asStringOrNull (get_property raw ''withdrawal_extra_id'')) (\<lambda>wd_extra.
        bindR (asString (get_property raw ''return'')) (\<lambda>ret.
        bindR (asStringOrNull (get_property raw ''return_extra_id'')) (\<lambda>ret_extra.
          Inr \<lparr>lq_transaction_id = tid, lq_deposit = dep, lq_deposit_extra_id = dep_extra,
               lq_withdrawal = wd, lq_withdrawal_extra_id = wd_extra, lq_return = ret,
               lq_return_extra_id = ret_extra\<rparr>))))))))"

text \<open>
  \<^verbatim>\<open>dontUseLegacy\<close> is an object literal, and \<^verbatim>\<open>dontUseLegacy[currencyCode]\<close> reads a
  property of it: its own property if it has one of that name, and otherwise the property
  of that name it inherits from \<^verbatim>\<open>Object.prototype\<close>, if any. The inherited properties
  (those of the language standard) are functions or objects, so they are truthy; a name
  that is neither reads as \<^verbatim>\<open>undefined\<close>.
\<close>

definition dontUseLegacy :: "(string \<times> bool) list" where
  "dontUseLegacy = [(''DGB'', True)]"

definition Object_prototype_properties :: "string list" where
  "Object_prototype_properties =
     [''constructor'', ''__defineGetter__'', ''__defineSetter__'', ''hasOwnProperty'',
      ''__lookupGetter__'', ''__lookupSetter__'', ''isPrototypeOf'', ''propertyIsEnumerable'',
      ''toString'', ''valueOf'', ''__proto__'', ''toLocaleString'']"

text \<open>The truth value of \<^verbatim>\<open>dontUseLegacy[currencyCode]\<close>.\<close>

definition dontUseLegacy_at :: "string \<Rightarrow> bool" where
  "dontUseLegacy_at currencyCode =
     (case map_of dontUseLegacy currencyCode of
        Some flag \<Rightarrow> flag
      | None \<Rightarrow> currencyCode \<in> set Object_prototype_properties)"

definition getAddress :: "wallet \<Rightarrow> string \<Rightarrow> string + string" where
  "getAddress wallet currencyCode =
     (case getReceiveAddress wallet currencyCode of
        Inl reason \<Rightarrow> Inl reason
      | Inr addressInfo \<Rightarrow>
          Inr (if legacyAddress addressInfo \<noteq> None \<and> \<not> dontUseLegacy_at currencyCode
               then the (legacyAddress addressInfo)
               else publicAddress addressInfo))"

text \<open>
  \<^verbatim>\<open>fetchSwapQuote\<close> of the earlier plugin is given in two parts. This is the second,
  from \<^verbatim>\<open>getCodesWithTranscription\<close> and the request that creates the order to the end,
  as a function of the variables it reads. \<^verbatim>\<open>makeSwapPluginQuote\<close> of
  \<^verbatim>\<open>swap-helpers\<close> is not among the sources and is a parameter, any function: it
  gives the quote, or fails with a reason as a collaborator does.
\<close>

definition fetchSwapQuote_legacy_order ::
  "(request \<Rightarrow> decimal \<Rightarrow> decimal \<Rightarrow> transaction \<Rightarrow> string \<Rightarrow> string \<Rightarrow> bool \<Rightarrow> nat \<Rightarrow> string \<Rightarrow> string + 'q) \<Rightarrow>
   godex_env \<Rightarrow> request \<Rightarrow> swap_opts \<Rightarrow> string \<Rightarrow> string \<Rightarrow> string \<Rightarrow> decimal \<Rightarrow> decimal \<Rightarrow> 'q io" where
  "fetchSwapQuote_legacy_order makeSwapPluginQuote env request opts fromAddress toAddress
       fromAmount fromNativeAmount toNativeAmount =
     (let codes = (fromCurrencyCode request, toCurrencyCode request) in
      case getCodesWithTranscription request MAINNET_CODE_TRANSCRIPTION_legacy of
        (fromMainnetCode, toMainnetCode) \<Rightarrow>
      bindE (call godex_swapInfo_legacy (fetchCors env)
              (uri @ ''transaction'' @
               (case promoCode opts of Some promo \<Rightarrow> ''?promo='' @ promo | None \<Rightarrow> []))
              codes
              [(''deposit_amount'', JStr fromAmount),
               (''coin_from'', JStr (fromCurrencyCode request)),
               (''coin_to'', JStr (toCurrencyCode request)),
               (''withdrawal'', JStr toAddress),
               (''return'', JStr fromAddress),
               (''return_extra_id'', JNull),
               (''withdrawal_extra_id'', JNull),
               (''affiliate_id'', opt_str (apiKey env)),
               (''type'', JStr ''edge''),
               (''isEstimate'', JBool False),
               (''coin_from_network'', JStr fromMainnetCode),
               (''coin_to_network'', JStr toMainnetCode)]) (\<lambda>sendReply.
      bindE (attempt (asQuoteInfo_legacy sendReply)) (\<lambda>quoteInfo.
      let spendInfo =
            \<lparr>sp_tokenId = None,
             sp_currencyCode = Some (fromCurrencyCode request),
             sp_spendTargets =
               [\<lparr>st_nativeAmount = fromNativeAmount, st_publicAddress = lq_deposit quoteInfo,
                 st_uniqueIdentifier = lq_deposit_extra_id quoteInfo\<rparr>],
             sp_memos = [],
             sp_networkFeeOption =
               (if toUpperCase (fromCurrencyCode request) = ''BTC'' then ''high'' else ''standard''),
             sp_assetActionType = None,
             sp_savedAction = None,
             sp_swapData = Some
               \<lparr>sd_orderId = lq_transaction_id quoteInfo,
                sd_orderUri = orderUri_godex @ lq_transaction_id quoteInfo,
                sd_isEstimate = False,
                sd_payoutAddress = toAddress,
                sd_payoutCurrencyCode = toCurrencyCode request,
                sd_payoutNativeAmount = toNativeAmount,
                sd_payoutWalletId = wallet_id (toWallet request),
                sd_plugin = godex_swapInfo_legacy,
                sd_refundAddress = fromAddress\<rparr>\<rparr>
      in
      bindE (await (makeSpend (fromWallet request) spendInfo)) (\<lambda>tx.
      await (makeSwapPluginQuote request fromNativeAmount toNativeAmount tx toAddress
                 ''godex'' False (date_now env + expirationMs)
                 (lq_transaction_id quoteInfo))))))"

text \<open>
  \<^verbatim>\<open>fetchSwapQuote\<close> of the earlier plugin, the first part: up to the check of the
  minimum and the conversion of the other amount. \<^verbatim>\<open>checkInvalidCodes\<close> of
  \<^verbatim>\<open>swap-helpers\<close> is not among the sources and is a parameter: what
  \<^verbatim>\<open>checkInvalidCodes(INVALID_CURRENCY_CODES, request, swapInfo)\<close> does for a request
  (the table has a form, \<^verbatim>\<open>'allTokens'\<close>, that the specification does not describe). The
  environment's two \<open>util\<close> fields are not used.
\<close>

definition fetchSwapQuote_legacy ::
  "(request \<Rightarrow> error + unit) \<Rightarrow>
   (request \<Rightarrow> decimal \<Rightarrow> decimal \<Rightarrow> transaction \<Rightarrow> string \<Rightarrow> string \<Rightarrow> bool \<Rightarrow> nat \<Rightarrow> string \<Rightarrow> string + 'q) \<Rightarrow>
   godex_env \<Rightarrow> request \<Rightarrow> swap_opts \<Rightarrow> 'q io" where
  "fetchSwapQuote_legacy checkInvalidCodes_of makeSwapPluginQuote env request opts =
     (let codes = (fromCurrencyCode request, toCurrencyCode request) in
      bindE (attempt (checkInvalidCodes_of request)) (\<lambda>_.
      bindE (await (getAddress (fromWallet request) (fromCurrencyCode request))) (\<lambda>fromAddress.
      bindE (await (getAddress (toWallet request) (toCurrencyCode request))) (\<lambda>toAddress.
      bindE (await
              (if quoteFor request = For_from
               then nativeToDenomination (fromWallet request) (nativeAmount request)
                      (fromCurrencyCode request)
               else nativeToDenomination (toWallet request) (nativeAmount request)
                      (toCurrencyCode request))) (\<lambda>quoteAmount.
      let quoteParams =
            [(''from'', JStr (fromCurrencyCode request)),
             (''to'', JStr (toCurrencyCode request)),
             (''amount'', JStr quoteAmount)]
      in
      bindE
        (if quoteFor request = For_from then
           bindE (call godex_swapInfo_legacy (fetchCors env) (uri @ ''info'') codes quoteParams) (\<lambda>response.
           bindE (attempt (asApiInfo_legacy response)) (\<lambda>reply.
           let fromNativeAmount = nativeAmount request in
           bindE (await (denominationToNative (fromWallet request) (li_min_amount reply)
                           (fromCurrencyCode request))) (\<lambda>nativeMin.
           if lt fromNativeAmount nativeMin
           then throwE (SwapBelowLimitError godex_swapInfo_legacy nativeMin Dir_from)
           else
           bindE (await (denominationToNative (toWallet request) (li_amount reply)
                           (toCurrencyCode request))) (\<lambda>toNativeAmount.
           returnE (quoteAmount, fromNativeAmount, toNativeAmount)))))
         else
           bindE (call godex_swapInfo_legacy (fetchCors env) (uri @ ''info-revert'') codes quoteParams) (\<lambda>response.
           bindE (attempt (asApiInfo_legacy response)) (\<lambda>reply.
           let toNativeAmount = nativeAmount request in
           bindE (await (denominationToNative (toWallet request) (li_min_amount reply)
                           (toCurrencyCode request))) (\<lambda>nativeMin.
           if lt toNativeAmount nativeMin
           then throwE (SwapBelowLimitError godex_swapInfo_legacy nativeMin Dir_to)
           else
           bindE (await (denominationToNative (fromWallet request) (li_amount reply)
                           (fromCurrencyCode request))) (\<lambda>fromNativeAmount.
           returnE (li_amount reply, fromNativeAmount, toNativeAmount))))))
        (\<lambda>(fromAmount, fromNativeAmount, toNativeAmount).
           fetchSwapQuote_legacy_order makeSwapPluginQuote env request opts fromAddress toAddress
             fromAmount fromNativeAmount toNativeAmount))))))"

section \<open>The amount converter\<close>

text \<open>
  Modelled from the spec: the conversions are methods of the wallet runtime
  (\<^verbatim>\<open>nativeToDenomination\<close>, \<^verbatim>\<open>denominationToNative\<close>), which is not among the sources.
  Section 4.1: \<^verbatim>\<open>toDenomination(nativeAmount, asset)\<close> gives the decimal for a native
  amount, in exact decimal arithmetic keyed by the asset's number of decimal places.
\<close>

definition toDenomination :: "decimal \<Rightarrow> nat \<Rightarrow> decimal" where
  "toDenomination native decimals = Decimal (mant native) (scale native + decimals)"

text \<open>
  Modelled from the spec: \<^verbatim>\<open>toNative(decimalAmount, asset)\<close> of section 4.1, the missing
  wallet runtime's conversion of a decimal amount to native units: the amount times
  \<open>10 ^ decimals\<close>, truncated toward zero.
\<close>

definition toNative :: "decimal \<Rightarrow> nat \<Rightarrow> decimal" where
  "toNative amount decimals = floor_big (Decimal (mant amount * 10 ^ decimals) (scale amount)) 0"

section \<open>The totle plugin: the quote and its execution\<close>

definition totle_pluginId :: string where
  "totle_pluginId = ''totle''"

record network_fee =
  fee_currencyCode :: string
  fee_nativeAmount :: string

text \<open>
  The \<^verbatim>\<open>EdgeSwapQuote\<close> that \<^verbatim>\<open>makeTotleSwapPluginQuote\<close> returns: its data fields and,
  for \<^verbatim>\<open>approve\<close>, what the closure holds: the wallet and the array \<^verbatim>\<open>txs\<close>, whose elements
  are references to the transaction objects. Amounts are the strings the function is
  given; it only copies them and puts a minus sign in front.
\<close>

record totle_quote =
  q_fromNativeAmount :: string
  q_toNativeAmount :: string
  q_networkFee :: network_fee
  q_destinationAddress :: string
  q_pluginId :: string
  q_expirationDate :: "nat option"
  q_isEstimate :: bool
  q_fromWallet :: wallet
  q_txs :: "tx_ref list"

text \<open>
  \<^verbatim>\<open>makeTotleSwapPluginQuote\<close>, up to the object it returns; \<open>objs\<close> is the store at the
  time of the call, where the fields of \<^verbatim>\<open>swapTx\<close> are read. \<^verbatim>\<open>txs[txs.length - 1]\<close> of an
  empty array is \<^verbatim>\<open>undefined\<close>, and reading a field of it throws a \<open>TypeError\<close>.
\<close>

definition makeTotleSwapPluginQuote ::
  "request \<Rightarrow> string \<Rightarrow> string \<Rightarrow> tx_ref list \<Rightarrow> string \<Rightarrow> bool \<Rightarrow> nat option \<Rightarrow> store \<Rightarrow>
   error + totle_quote" where
  "makeTotleSwapPluginQuote request fromNativeAmount toNativeAmount txs destinationAddress
       isEstimate expirationDate objs =
     (if txs = [] then Inl TypeError
      else
        let swapTx = objs (txs ! (length txs - 1)) in
        Inr \<lparr>q_fromNativeAmount = fromNativeAmount,
             q_toNativeAmount = toNativeAmount,
             q_networkFee =
               \<lparr>fee_currencyCode = wallet_currencyCode (fromWallet request),
                fee_nativeAmount =
                  (if parentNetworkFee swapTx \<noteq> None then the (parentNetworkFee swapTx)
                   else networkFee swapTx)\<rparr>,
             q_destinationAddress = destinationAddress,
             q_pluginId = totle_pluginId,
             q_expirationDate = expirationDate,
             q_isEstimate = isEstimate,
             q_fromWallet = fromWallet request,
             q_txs = txs\<rparr>)"

text \<open>
  The state \<^verbatim>\<open>approve\<close> runs in: the store of the transaction objects, the calls made on the
  wallet so far, oldest first, and the time.
\<close>

record exec_state =
  objects :: store
  calls :: "wallet_event list"
  clock :: nat

text \<open>The \<^verbatim>\<open>EdgeSwapResult\<close>: \<^verbatim>\<open>transaction\<close> is a reference, \<^verbatim>\<open>orderId\<close> the \<^verbatim>\<open>txid\<close> read
  from that object when \<^verbatim>\<open>approve\<close> returns.\<close>

record swap_result =
  res_transaction :: tx_ref
  res_destinationAddress :: string
  res_orderId :: string

text \<open>
  The loop \<^verbatim>\<open>for (const tx of txs)\<close> of \<^verbatim>\<open>approve\<close>, from the transaction at \<open>index\<close>
  on: the elements of the array that are left, the value of \<^verbatim>\<open>swapTx\<close>, the calls so far
  and the store go in; the outcome (the final \<^verbatim>\<open>swapTx\<close>, or what was thrown), the store
  and the calls come out. \<open>n\<close> is \<^verbatim>\<open>txs.length\<close>. The assignment to \<^verbatim>\<open>tx.nativeAmount\<close>
  writes to the object \<^verbatim>\<open>tx\<close> in the store, after the broadcast and before \<^verbatim>\<open>saveTx\<close> is
  called; if \<^verbatim>\<open>signTx\<close> returned the object it was given, this is also the object that is
  saved.
\<close>

fun approve_loop ::
  "wallet \<Rightarrow> string \<Rightarrow> nat \<Rightarrow> tx_ref list \<Rightarrow> nat \<Rightarrow> tx_ref option \<Rightarrow> wallet_event list \<Rightarrow> store \<Rightarrow>
   (error + tx_ref option) \<times> store \<times> wallet_event list" where
  "approve_loop w fromNativeAmount n [] index swapTx cs objs = (Inr swapTx, objs, cs)"
| "approve_loop w fromNativeAmount n (tx # rest) index swapTx cs objs =
     (case signTx w cs objs tx of
        (Inl reason, objs1) \<Rightarrow> (Inl (Rejected reason), objs1, cs @ [SignTx tx (Inl reason)])
      | (Inr signedTransaction, objs1) \<Rightarrow>
          let cs1 = cs @ [SignTx tx (Inr signedTransaction)] in
          (case broadcastTx w cs1 objs1 signedTransaction of
             (Inl reason, objs2) \<Rightarrow>
               (Inl (Rejected reason), objs2, cs1 @ [BroadcastTx signedTransaction (Inl reason)])
           | (Inr broadcast, objs2) \<Rightarrow>
               let cs2 = cs1 @ [BroadcastTx signedTransaction (Inr broadcast)];
                   lastTransactionIndex = int n - 1;
                   objs3 = (if int index = lastTransactionIndex
                            then objs2(tx := (objs2 tx)\<lparr>tx_nativeAmount := ''-'' @ fromNativeAmount\<rparr>)
                            else objs2)
               in
               (case saveTx w cs2 objs3 signedTransaction of
                  (Inl reason, objs4) \<Rightarrow>
                    (Inl (Rejected reason), objs4, cs2 @ [SaveTx signedTransaction (Inl reason)])
                | (Inr u, objs4) \<Rightarrow>
                    approve_loop w fromNativeAmount n rest (index + 1) (Some broadcast)
                      (cs2 @ [SaveTx signedTransaction (Inr u)]) objs4)))"

definition approve :: "totle_quote \<Rightarrow> exec_state \<Rightarrow> (error + swap_result) \<times> exec_state" where
  "approve q st =
     (case approve_loop (q_fromWallet q) (q_fromNativeAmount q) (length (q_txs q)) (q_txs q)
             0 None (calls st) (objects st) of
        (Inl e, objs', cs') \<Rightarrow> (Inl e, st\<lparr>objects := objs', calls := cs'\<rparr>)
      | (Inr None, objs', cs') \<Rightarrow>
          (Inl (Error ''No Totle swapTx''), st\<lparr>objects := objs', calls := cs'\<rparr>)
      | (Inr (Some swapTx), objs', cs') \<Rightarrow>
          (Inr \<lparr>res_transaction = swapTx,
                res_destinationAddress = q_destinationAddress q,
                res_orderId = txid (objs' swapTx)\<rparr>,
           st\<lparr>objects := objs', calls := cs'\<rparr>))"

subsection \<open>What a run of \<^verbatim>\<open>approve\<close> looks like\<close>

text \<open>Whether the wallet refused a call.\<close>

fun call_failed :: "wallet_event \<Rightarrow> bool" where
  "call_failed (SignTx t answer) = isl answer"
| "call_failed (BroadcastTx t answer) = isl answer"
| "call_failed (SaveTx t answer) = isl answer"

text \<open>
  A recorded call is what happened: after the calls \<open>before\<close> and in the store \<open>objs\<close>, the
  wallet answered the call as the event says.
\<close>

fun answered :: "wallet \<Rightarrow> wallet_event list \<Rightarrow> store \<Rightarrow> wallet_event \<Rightarrow> bool" where
  "answered w before objs (SignTx t answer) = (fst (signTx w before objs t) = answer)"
| "answered w before objs (BroadcastTx t answer) = (fst (broadcastTx w before objs t) = answer)"
| "answered w before objs (SaveTx t answer) = (fst (saveTx w before objs t) = answer)"

text \<open>
  The calls follow the array: for each element in turn the signing of that object, then
  the broadcast and the saving of the object that the signing returned, and only the last
  group may be cut short.
\<close>

fun in_order :: "wallet_event list \<Rightarrow> tx_ref list \<Rightarrow> bool" where
  "in_order [] txs = True"
| "in_order [SignTx t a] (x # xs) = (t = x)"
| "in_order [SignTx t a, BroadcastTx s b] (x # xs) = (t = x \<and> a = Inr s)"
| "in_order (SignTx t a # BroadcastTx s b # SaveTx s' c # es) (x # xs) =
     (t = x \<and> a = Inr s \<and> s' = s \<and> in_order es xs)"
| "in_order es txs = False"

text \<open>Going through the calls in turn: once the wallet has refused one, none follows.\<close>

fun no_call_after_failure :: "wallet_event list \<Rightarrow> bool" where
  "no_call_after_failure [] = True"
| "no_call_after_failure (e # es) =
     ((if call_failed e then es = [] else True) \<and> no_call_after_failure es)"

text \<open>Whether the wallet refused one of the calls.\<close>

fun some_call_failed :: "wallet_event list \<Rightarrow> bool" where
  "some_call_failed [] = False"
| "some_call_failed (e # es) = (call_failed e \<or> some_call_failed es)"

section \<open>Reading results\<close>

text \<open>The number a string of decimal digits denotes, to read the status code back from the
  message of the error \<^verbatim>\<open>call\<close> throws.\<close>

definition nat_of_string :: "string \<Rightarrow> nat" where
  "nat_of_string s = foldl (\<lambda>acc c. 10 * acc + (of_char c - 48)) 0 s"

definition status_of_message :: "string \<Rightarrow> nat" where
  "status_of_message msg = nat_of_string (drop (length ''godex returned error code '') msg)"

definition post :: "string \<Rightarrow> (string \<times> jsvalue) list \<Rightarrow> http_request" where
  "post u params =
     \<lparr>url = u, http_method = ''POST'', body = JSON_stringify params, headers = godex_headers\<rparr>"

text \<open>The request both versions of the plugin send to learn the backend's minimum.\<close>

definition info_request :: "request \<Rightarrow> string \<Rightarrow> http_request" where
  "info_request request quoteAmount =
     post (uri @ (if quoteFor request = For_from then ''info'' else ''info-revert''))
       [(''from'', JStr (fromCurrencyCode request)),
        (''to'', JStr (toCurrencyCode request)),
        (''amount'', JStr quoteAmount)]"

text \<open>
  The collaborators' answers that take a run of \<^verbatim>\<open>fetchSwapQuoteInner\<close>, started after
  the requests \<open>tr\<close>, as far as the comparison with the minimum: both addresses are found,
  the wallet converts the requested amount to \<open>quoteAmount\<close>, the backend answers the info
  request with an OK reply whose body \<^verbatim>\<open>asApiInfo\<close> cleans to \<open>reply\<close>, and the wallet
  converts the reply's \<^verbatim>\<open>min_amount\<close> to \<open>nativeMin\<close>.
\<close>

definition minimum_reached ::
  "godex_env \<Rightarrow> request \<Rightarrow> http_request list \<Rightarrow> string \<Rightarrow> string \<Rightarrow> string \<Rightarrow> api_info \<Rightarrow> decimal \<Rightarrow> bool" where
  "minimum_reached env request tr fromAddress toAddress quoteAmount reply nativeMin =
     (util_getAddress env (fromWallet request) = Inr fromAddress \<and>
      util_getAddress env (toWallet request) = Inr toAddress \<and>
      (if quoteFor request = For_from
       then nativeToDenomination (fromWallet request) (nativeAmount request) (fromCurrencyCode request)
       else nativeToDenomination (toWallet request) (nativeAmount request) (toCurrencyCode request))
        = Inr quoteAmount \<and>
      (case fetchCors env tr (info_request request quoteAmount) of
         Inl _ \<Rightarrow> False
       | Inr response \<Rightarrow>
           ok response \<and>
           (case json response of None \<Rightarrow> False | Some j \<Rightarrow> asApiInfo j = Inr reply)) \<and>
      (if quoteFor request = For_to
       then denominationToNative (toWallet request) (min_amount reply) (toCurrencyCode request)
       else denominationToNative (fromWallet request) (min_amount reply) (fromCurrencyCode request))
        = Inr nativeMin)"

text \<open>The same for \<^verbatim>\<open>fetchSwapQuote\<close> of the earlier plugin, which first lets
  \<^verbatim>\<open>checkInvalidCodes\<close> pass, finds the addresses with its own \<^verbatim>\<open>getAddress\<close> and
  converts the minimum with the wallet of the quoted side.\<close>

definition minimum_reached_legacy ::
  "(request \<Rightarrow> error + unit) \<Rightarrow> godex_env \<Rightarrow> request \<Rightarrow> http_request list \<Rightarrow> string \<Rightarrow> string \<Rightarrow> string \<Rightarrow>
   api_info_legacy \<Rightarrow> decimal \<Rightarrow> bool" where
  "minimum_reached_legacy checkInvalidCodes_of env request tr fromAddress toAddress quoteAmount
       reply nativeMin =
     (checkInvalidCodes_of request = Inr () \<and>
      getAddress (fromWallet request) (fromCurrencyCode request) = Inr fromAddress \<and>
      getAddress (toWallet request) (toCurrencyCode request) = Inr toAddress \<and>
      (if quoteFor request = For_from
       then nativeToDenomination (fromWallet request) (nativeAmount request) (fromCurrencyCode request)
       else nativeToDenomination (toWallet request) (nativeAmount request) (toCurrencyCode request))
        = Inr quoteAmount \<and>
      (case fetchCors env tr (info_request request quoteAmount) of
         Inl _ \<Rightarrow> False
       | Inr response \<Rightarrow>
           ok response \<and>
           (case json response of None \<Rightarrow> False | Some j \<Rightarrow> asApiInfo_legacy j = Inr reply)) \<and>
      (if quoteFor request = For_from
       then denominationToNative (fromWallet request) (li_min_amount reply) (fromCurrencyCode request)
       else denominationToNative (toWallet request) (li_min_amount reply) (toCurrencyCode request))
        = Inr nativeMin)"

text \<open>
  What a run of a computation from the requests \<open>tr\<close> satisfies: \<open>Q\<close> of the value and the
  requests made when it returns, \<open>E\<close> of the error and the requests made when it throws.
\<close>

definition run_satisfies ::
  "'a io \<Rightarrow> http_request list \<Rightarrow> ('a \<Rightarrow> http_request list \<Rightarrow> bool) \<Rightarrow> (error \<Rightarrow> http_request list \<Rightarrow> bool) \<Rightarrow> bool" where
  "run_satisfies m tr Q E = (case m tr of (Inr x, tr') \<Rightarrow> Q x tr' | (Inl e, tr') \<Rightarrow> E e tr')"

section \<open>Example inputs\<close>

text \<open>
  A bitcoin wallet and an ethereum wallet whose conversions are tables (eight and eighteen
  decimal places), and a backend that declares a minimum of 0.001 BTC and, in a field the
  plugin does not read, a maximum of 10 BTC: the scenario of section 8 of the
  specification.
\<close>

definition lookup_or_reject :: "('k \<times> 'v) list \<Rightarrow> 'k \<Rightarrow> string + 'v" where
  "lookup_or_reject table k = (case map_of table k of Some v \<Rightarrow> Inr v | None \<Rightarrow> Inl ''unsupported'')"

definition example_tx :: transaction where
  "example_tx =
     \<lparr>txid = ''tx-1'', tx_nativeAmount = ''0'', networkFee = ''21000'', parentNetworkFee = None,
      signedTx = []\<rparr>"

definition btc_wallet :: wallet where
  "btc_wallet =
     \<lparr>wallet_id = ''wallet-btc'', wallet_pluginId = ''bitcoin'', wallet_currencyCode = ''BTC'',
      nativeToDenomination = (\<lambda>native code. lookup_or_reject
        [(Decimal 100000000 0, ''1''), (Decimal 10000 0, ''0.0001''),
         (Decimal 100000 0, ''0.001''), (Decimal 10000000000 0, ''100'')] native),
      denominationToNative = (\<lambda>amount code. lookup_or_reject
        [(''0.001'', Decimal 100000 0), (''1'', Decimal 100000000 0),
         (''10'', Decimal 1000000000 0), (''1.000000005'', Decimal 1000000005 1),
         (''-0.000000015'', Decimal (- 15) 1)] amount),
      getReceiveAddress = (\<lambda>code. Inr \<lparr>publicAddress = ''bc1-public'', legacyAddress = Some ''1-legacy''\<rparr>),
      makeSpend = (\<lambda>spendInfo. Inr example_tx),
      signTx = (\<lambda>cs objs tx. (Inr tx, objs(tx := (objs tx)\<lparr>signedTx := ''signed''\<rparr>))),
      broadcastTx = (\<lambda>cs objs tx. (Inr tx, objs)),
      saveTx = (\<lambda>cs objs tx. (Inr (), objs))\<rparr>"

definition eth_wallet :: wallet where
  "eth_wallet =
     \<lparr>wallet_id = ''wallet-eth'', wallet_pluginId = ''ethereum'', wallet_currencyCode = ''ETH'',
      nativeToDenomination = (\<lambda>native code. lookup_or_reject
        [(Decimal 1000000000000000000 0, ''1'')] native),
      denominationToNative = (\<lambda>amount code. lookup_or_reject
        [(''15.5'', Decimal 15500000000000000000 0), (''0.02'', Decimal 20000000000000000 0)] amount),
      getReceiveAddress = (\<lambda>code. Inr \<lparr>publicAddress = ''0x-public'', legacyAddress = None\<rparr>),
      makeSpend = (\<lambda>spendInfo. Inr example_tx),
      signTx = (\<lambda>cs objs tx. (Inr tx, objs(tx := (objs tx)\<lparr>signedTx := ''signed''\<rparr>))),
      broadcastTx = (\<lambda>cs objs tx. (Inr tx, objs)),
      saveTx = (\<lambda>cs objs tx. (Inr (), objs))\<rparr>"

text \<open>A request to swap the given native amount of BTC to ETH.\<close>

definition btc_to_eth :: "decimal \<Rightarrow> request" where
  "btc_to_eth amount =
     \<lparr>fromWallet = btc_wallet, toWallet = eth_wallet, fromTokenId = None, toTokenId = None,
      nativeAmount = amount, quoteFor = For_from, fromCurrencyCode = ''BTC'',
      toCurrencyCode = ''ETH''\<rparr>"

definition info_body :: "string list \<Rightarrow> jsvalue" where
  "info_body networks_to_list =
     JObj [(''max_amount'', JStr ''10''),
           (''min_amount'', JStr ''0.001''),
           (''amount'', JStr ''15.5''),
           (''networks_from'', JArr [JObj [(''network'', JStr ''BTC'')]]),
           (''networks_to'', JArr (map (\<lambda>n. JObj [(''network'', JStr n)]) networks_to_list))]"

definition order_body :: jsvalue where
  "order_body =
     JObj [(''transaction_id'', JStr ''order-1''),
           (''deposit'', JStr ''bc1-deposit''),
           (''deposit_extra_id'', JNull),
           (''deposit_amount'', JStr ''1.000000005''),
           (''withdrawal'', JStr ''0x-public''),
           (''withdrawal_extra_id'', JNull),
           (''withdrawal_amount'', JStr ''15.5''),
           (''return'', JStr ''bc1-public''),
           (''return_extra_id'', JNull)]"

text \<open>The backend: it answers the info request and the order request, whatever came
  before; \<open>networks_to_list\<close> are the networks it lists for the receiving side.\<close>

definition backend :: "string list \<Rightarrow> fetch" where
  "backend networks_to_list tr req =
     (if url req = uri @ ''info''
      then Inr \<lparr>ok = True, status = 200, json = Some (info_body networks_to_list)\<rparr>
      else if url req = uri @ ''transaction''
      then Inr \<lparr>ok = True, status = 200, json = Some order_body\<rparr>
      else Inr \<lparr>ok = False, status = 404, json = None\<rparr>)"

definition example_env :: "string list \<Rightarrow> godex_env" where
  "example_env networks_to_list =
     \<lparr>fetchCors = backend networks_to_list, apiKey = None, date_now = 1000,
      util_getAddress = (\<lambda>w. Inr (''address-of-'' @ wallet_id w)),
      util_memoType = (\<lambda>p. ''text'')\<rparr>"

definition no_promo :: swap_opts where
  "no_promo = \<lparr>promoCode = None\<rparr>"




text \<open>
  For the totle plugin: a quote of two transactions, an approval (object 1) and the swap
  (object 2), made with an expiration date of 1000. The wallets above sign a transaction
  in place and return the object they were given. A second wallet refuses to sign the
  transaction with the id \<^verbatim>\<open>tx-swap\<close>; a third one returns a new object from \<^verbatim>\<open>signTx\<close> and
  leaves the one it was given as it is.
\<close>

definition approval_tx :: transaction where
  "approval_tx =
     \<lparr>txid = ''tx-approve'', tx_nativeAmount = ''0'', networkFee = ''41000'',
      parentNetworkFee = None, signedTx = []\<rparr>"

definition swap_tx :: transaction where
  "swap_tx =
     \<lparr>txid = ''tx-swap'', tx_nativeAmount = ''0'', networkFee = ''0'',
      parentNetworkFee = Some ''90000'', signedTx = []\<rparr>"

definition example_store :: store where
  "example_store = (\<lambda>r. example_tx)(1 := approval_tx, 2 := swap_tx)"

definition token_request :: request where
  "token_request =
     \<lparr>fromWallet = eth_wallet, toWallet = eth_wallet, fromTokenId = None, toTokenId = None,
      nativeAmount = Decimal 5000 0, quoteFor = For_from, fromCurrencyCode = ''DAI'',
      toCurrencyCode = ''USDC''\<rparr>"

definition two_step_quote :: totle_quote where
  "two_step_quote =
     \<lparr>q_fromNativeAmount = ''5000'', q_toNativeAmount = ''4990'',
      q_networkFee = \<lparr>fee_currencyCode = ''ETH'', fee_nativeAmount = ''90000''\<rparr>,
      q_destinationAddress = ''0x-public'', q_pluginId = ''totle'',
      q_expirationDate = Some 1000, q_isEstimate = False, q_fromWallet = eth_wallet,
      q_txs = [1, 2]\<rparr>"

definition start_at :: "nat \<Rightarrow> exec_state" where
  "start_at time = \<lparr>objects = example_store, calls = [], clock = time\<rparr>"

definition refusing_wallet :: wallet where
  "refusing_wallet =
     eth_wallet\<lparr>signTx := (\<lambda>cs objs tx. if txid (objs tx) = ''tx-swap'' then (Inl ''refused'', objs)
                                     else signTx eth_wallet cs objs tx)\<rparr>"

definition copying_wallet :: wallet where
  "copying_wallet =
     eth_wallet\<lparr>signTx := (\<lambda>cs objs tx.
        (Inr (tx + 10), objs(tx + 10 := (objs tx)\<lparr>signedTx := ''signed''\<rparr>)))\<rparr>"

section \<open>The fetch helper\<close>

lemma of_char_digit_char: "d < 10 \<Longrightarrow> of_char (digit_char d) = (48 + d :: nat)"
  by (simp add: digit_char_def)

lemma nat_of_string_snoc: "nat_of_string (s @ [c]) = 10 * nat_of_string s + (of_char c - 48)"
  by (simp add: nat_of_string_def)

lemma nat_of_string_of_nat: "nat_of_string (string_of_nat n) = n"
proof (induction n rule: string_of_nat.induct)
  case (1 n)
  show ?case
  proof (cases "n < 10")
    case True
    then show ?thesis
      by (subst string_of_nat.simps) (simp add: nat_of_string_def of_char_digit_char)
  next
    case False
    then have "nat_of_string (string_of_nat (n div 10)) = n div 10"
      using 1 by simp
    with False show ?thesis
      by (subst string_of_nat.simps) (simp add: nat_of_string_snoc of_char_digit_char)
  qed
qed

lemma call_trace: "snd (call si net u codes params tr) = tr @ [post u params]"
  by (auto simp: call_def bindE_def fetchCors_io_def post_def throwE_def returnE_def
      response_json_def split: sum.splits option.splits)

text \<open>
  C2. Whatever reply the network gives to the one request \<^verbatim>\<open>call\<close> makes: a reply that is
  not OK and has status 422 makes it throw the \<open>SwapCurrencyError\<close>; any other reply
  that is not OK makes it throw an \<open>Error\<close> whose message ends with the digits of the
  status code (the code can be read back from the message); an OK reply makes it return
  the parsed body. In every case, also when the network fails, exactly one request has
  been added to the requests made: there is no retry. The helper of the earlier plugin is
  the same function, given the earlier \<open>swapInfo\<close>.
\<close>

theorem call_classifies_reply:
  assumes "net tr (post u params) = Inr response"
  shows "(\<not> ok response \<and> status response = 422 \<longrightarrow>
            call si net u codes params tr =
              (Inl (SwapCurrencyError si (fst codes) (snd codes)), tr @ [post u params])) \<and>
         (\<not> ok response \<and> status response \<noteq> 422 \<longrightarrow>
            (\<exists>msg. call si net u codes params tr = (Inl (Error msg), tr @ [post u params]) \<and>
               msg = ''godex returned error code '' @ string_of_nat (status response) \<and>
               status_of_message msg = status response)) \<and>
         (ok response \<longrightarrow>
            (\<forall>j. json response = Some j \<longrightarrow>
               call si net u codes params tr = (Inr j, tr @ [post u params]))) \<and>
         snd (call si net u codes params tr) = tr @ [post u params]"
  using assms
  by (auto simp: call_def bindE_def fetchCors_io_def post_def throwE_def returnE_def
      response_json_def status_of_message_def nat_of_string_of_nat split: option.splits)

theorem call_classifies_reply_witness:
  "call godex_swapInfo (\<lambda>tr r. Inr \<lparr>ok = False, status = 422, json = None\<rparr>)
      ''https://api.godex.io/api/v1/info'' (''BTC'', ''ETH'') [] [] =
     (Inl (SwapCurrencyError godex_swapInfo ''BTC'' ''ETH''),
      [post ''https://api.godex.io/api/v1/info'' []]) \<and>
   fst (call godex_swapInfo (\<lambda>tr r. Inr \<lparr>ok = False, status = 503, json = None\<rparr>)
      ''https://api.godex.io/api/v1/info'' (''BTC'', ''ETH'') [] []) =
     Inl (Error ''godex returned error code 503'') \<and>
   call godex_swapInfo (\<lambda>tr r. Inr \<lparr>ok = True, status = 200, json = Some (JObj [])\<rparr>)
      ''https://api.godex.io/api/v1/info'' (''BTC'', ''ETH'') [] [] =
     (Inr (JObj []), [post ''https://api.godex.io/api/v1/info'' []])"
proof -
  have s503: "string_of_nat 503 = ''503''"
    by code_simp
  show ?thesis
  using call_classifies_reply [of "\<lambda>tr r. Inr \<lparr>ok = False, status = 422, json = None\<rparr>" "[]"
          "''https://api.godex.io/api/v1/info''" "[]" "\<lparr>ok = False, status = 422, json = None\<rparr>"
          godex_swapInfo "(''BTC'', ''ETH'')"]
        call_classifies_reply [of "\<lambda>tr r. Inr \<lparr>ok = False, status = 503, json = None\<rparr>" "[]"
          "''https://api.godex.io/api/v1/info''" "[]" "\<lparr>ok = False, status = 503, json = None\<rparr>"
          godex_swapInfo "(''BTC'', ''ETH'')"]
        call_classifies_reply [of "\<lambda>tr r. Inr \<lparr>ok = True, status = 200, json = Some (JObj [])\<rparr>" "[]"
          "''https://api.godex.io/api/v1/info''" "[]" "\<lparr>ok = True, status = 200, json = Some (JObj [])\<rparr>"
          godex_swapInfo "(''BTC'', ''ETH'')"]
    by (simp add: s503)
qed

section \<open>The godex plugin: the checks before the order\<close>

lemma lt_irrefl: "\<not> lt a a"
  by (simp add: lt_def)

lemma info_not_order: "\<not> is_order_endpoint (info_request request quoteAmount)"
  by (simp add: is_order_endpoint_def info_request_def post_def uri_def)

subsection \<open>Stepping through a computation\<close>

lemma bindE_returnE [simp]: "bindE (returnE x) f = f x"
  by (rule ext) (simp add: bindE_def returnE_def)

lemma bindE_throwE [simp]: "bindE (throwE e) f = throwE e"
  by (rule ext) (simp add: bindE_def throwE_def)

lemma await_Inr [simp]: "await (Inr x) = returnE x"
  by (simp add: await_def)

lemma await_Inl [simp]: "await (Inl r) = throwE (Rejected r)"
  by (simp add: await_def)

lemma attempt_Inr [simp]: "attempt (Inr x) = returnE x"
  by (simp add: attempt_def)

lemma attempt_Inl [simp]: "attempt (Inl e) = throwE e"
  by (simp add: attempt_def)

lemma bindE_call_ok:
  "net tr (post u params) = Inr response \<Longrightarrow> ok response \<Longrightarrow> json response = Some j \<Longrightarrow>
   bindE (call si net u codes params) f tr = f j (tr @ [post u params])"
  by (simp add: call_def bindE_def fetchCors_io_def post_def returnE_def response_json_def)

lemma sat_returnE: "Q x tr \<Longrightarrow> run_satisfies (returnE x) tr Q E"
  by (simp add: run_satisfies_def returnE_def)

lemma sat_throwE: "E e tr \<Longrightarrow> run_satisfies (throwE e) tr Q E"
  by (simp add: run_satisfies_def throwE_def)

lemma sat_bindE:
  "run_satisfies m tr (\<lambda>x tr1. run_satisfies (f x) tr1 Q E) E \<Longrightarrow> run_satisfies (bindE m f) tr Q E"
  by (auto simp: run_satisfies_def bindE_def split: prod.splits sum.splits)

lemma sat_await:
  "(\<And>x. p = Inr x \<Longrightarrow> Q x tr) \<Longrightarrow> (\<And>r. p = Inl r \<Longrightarrow> E (Rejected r) tr) \<Longrightarrow>
   run_satisfies (await p) tr Q E"
  by (cases p) (simp_all add: sat_returnE sat_throwE)

lemma sat_attempt:
  "(\<And>x. r = Inr x \<Longrightarrow> Q x tr) \<Longrightarrow> (\<And>e. r = Inl e \<Longrightarrow> E e tr) \<Longrightarrow>
   run_satisfies (attempt r) tr Q E"
  by (cases r) (simp_all add: sat_returnE sat_throwE)

lemma sat_if:
  "(c \<Longrightarrow> run_satisfies m1 tr Q E) \<Longrightarrow> (\<not> c \<Longrightarrow> run_satisfies m2 tr Q E) \<Longrightarrow>
   run_satisfies (if c then m1 else m2) tr Q E"
  by simp

lemma sat_call:
  assumes "\<And>response j. net tr (post u params) = Inr response \<Longrightarrow> ok response \<Longrightarrow>
             json response = Some j \<Longrightarrow> Q j (tr @ [post u params])"
      and "\<And>a b. E (SwapCurrencyError si a b) (tr @ [post u params])"
      and "\<And>m. E (Error m) (tr @ [post u params])"
      and "\<And>r. E (Rejected r) (tr @ [post u params])"
  shows "run_satisfies (call si net u codes params) tr Q E"
  using assms
  by (auto simp: run_satisfies_def call_def bindE_def fetchCors_io_def post_def throwE_def
      returnE_def response_json_def split: sum.splits option.splits)

lemma sat_case_prod:
  "(\<And>a b. p = (a, b) \<Longrightarrow> run_satisfies (f a b) tr Q E) \<Longrightarrow>
   run_satisfies (case p of (a, b) \<Rightarrow> f a b) tr Q E"
  by (cases p) simp

lemmas sat_rules = sat_bindE sat_await sat_attempt sat_if sat_call sat_returnE sat_throwE sat_case_prod

lemma sat_Inl: "run_satisfies m tr Q E \<Longrightarrow> m tr = (Inl e, tr') \<Longrightarrow> E e tr'"
  by (simp add: run_satisfies_def)


subsection \<open>The minimum\<close>

lemma asString_error: "asString raw = Inl e \<Longrightarrow> e = TypeError"
  by (cases raw) (simp_all add: asString_def)

lemma asNumber_error: "asNumber raw = Inl e \<Longrightarrow> e = TypeError"
  by (cases raw) (simp_all add: asNumber_def)

lemma asNull_error: "asNull raw = Inl e \<Longrightarrow> e = TypeError"
  by (cases raw) (simp_all add: asNull_def)

lemma asEither_error:
  "(\<And>e. b raw = Inl e \<Longrightarrow> e = TypeError) \<Longrightarrow> asEither a b raw = Inl e \<Longrightarrow> e = TypeError"
  by (auto simp: asEither_def split: sum.splits)

lemma asNumberString_error: "asNumberString raw = Inl e \<Longrightarrow> e = TypeError"
  using asEither_error [of asNumber raw asString, OF asNumber_error]
  by (auto simp: asNumberString_def split: sum.splits)

lemma asStringOrNull_error: "asStringOrNull raw = Inl e \<Longrightarrow> e = TypeError"
  using asEither_error [of asNull raw asString, OF asNull_error]
  by (auto simp: asStringOrNull_def split: sum.splits)

lemma bindR_InlE:
  assumes "bindR r f = Inl e"
  obtains "r = Inl e" | x where "r = Inr x" "f x = Inl e"
  using assms by (cases r) (simp_all add: bindR_def)

lemma asApiInfo_error: "asApiInfo j = Inl e \<Longrightarrow> e = TypeError"
  by (auto simp: asApiInfo_def dest: asNumberString_error split: if_splits sum.splits)

lemma asQuoteInfo_error:
  assumes "asQuoteInfo j = Inl e"
  shows "e = TypeError"
proof (cases "is_object j")
  case False
  with assms show ?thesis by (simp add: asQuoteInfo_def)
next
  case True
  with assms show ?thesis
    unfolding asQuoteInfo_def
    by (simp only: if_False not_True_eq_False)
       (elim bindR_InlE; (drule asString_error | drule asStringOrNull_error | simp))
qed

lemma info_answered:
  assumes "(case net tr req of
              Inl _ \<Rightarrow> False
            | Inr response \<Rightarrow>
                ok response \<and> (case json response of None \<Rightarrow> False | Some j \<Rightarrow> clean j = Inr reply))"
  obtains response j where "net tr req = Inr response" "ok response" "json response = Some j"
    "clean j = Inr reply"
proof -
  from assms obtain response where r: "net tr req = Inr response" "ok response"
    and r3: "(case json response of None \<Rightarrow> False | Some j \<Rightarrow> clean j = Inr reply)"
    by (cases "net tr req") simp_all
  from r3 obtain j where j: "json response = Some j" "clean j = Inr reply"
    by (cases "json response") simp_all
  from r j show thesis by (rule that)
qed

text \<open>Where a run that reached the minimum stands.\<close>

lemma inner_at_minimum:
  assumes "minimum_reached env request tr fromAddress toAddress quoteAmount reply nativeMin"
  shows "fetchSwapQuoteInner env request opts tr =
             (if lt (nativeAmount request) nativeMin
              then throwE (SwapBelowLimitError godex_swapInfo nativeMin
                             (if quoteFor request = For_to then Dir_to else Dir_from))
              else if network_missing (networks_from reply)
                        (fst (getCodesWithTranscription request MAINNET_CODE_TRANSCRIPTION)) \<or>
                      network_missing (networks_to reply)
                        (snd (getCodesWithTranscription request MAINNET_CODE_TRANSCRIPTION))
              then throwE (SwapCurrencyError godex_swapInfo (fromCurrencyCode request)
                             (toCurrencyCode request))
              else fetchSwapQuoteInner_order env request opts fromAddress toAddress
                     (fst (getCodesWithTranscription request MAINNET_CODE_TRANSCRIPTION))
                     (snd (getCodesWithTranscription request MAINNET_CODE_TRANSCRIPTION))
                     (if quoteFor request = For_from then JStr quoteAmount else JUndefined)
                     (if quoteFor request = For_from then JUndefined else JStr quoteAmount))
             (tr @ [info_request request quoteAmount])"
proof -
  from assms have h:
    "util_getAddress env (fromWallet request) = Inr fromAddress"
    "util_getAddress env (toWallet request) = Inr toAddress"
    "(if quoteFor request = For_from
      then nativeToDenomination (fromWallet request) (nativeAmount request) (fromCurrencyCode request)
      else nativeToDenomination (toWallet request) (nativeAmount request) (toCurrencyCode request))
       = Inr quoteAmount"
    "(if quoteFor request = For_to
      then denominationToNative (toWallet request) (min_amount reply) (toCurrencyCode request)
      else denominationToNative (fromWallet request) (min_amount reply) (fromCurrencyCode request))
       = Inr nativeMin"
    and r: "(case fetchCors env tr (info_request request quoteAmount) of
         Inl _ \<Rightarrow> False
       | Inr response \<Rightarrow>
           ok response \<and>
           (case json response of None \<Rightarrow> False | Some j \<Rightarrow> asApiInfo j = Inr reply))"
    unfolding minimum_reached_def by blast+
  from r obtain response j where rj:
    "fetchCors env tr (info_request request quoteAmount) = Inr response"
    "ok response" "json response = Some j" and p: "asApiInfo j = Inr reply"
    by (rule info_answered)
  have c: "bindE (call godex_swapInfo (fetchCors env)
                   (uri @ (if quoteFor request = For_from then ''info'' else ''info-revert''))
                   codes
                   [(''from'', JStr (fromCurrencyCode request)),
                    (''to'', JStr (toCurrencyCode request)),
                    (''amount'', JStr quoteAmount)]) f tr
           = f j (tr @ [info_request request quoteAmount])" for f codes
    using rj unfolding info_request_def by (rule bindE_call_ok)
  show ?thesis
    unfolding fetchSwapQuoteInner_def Let_def
    by (simp only: h p await_Inr bindE_returnE attempt_Inr c split_beta fst_conv snd_conv)
qed


lemma inner_order_errors:
  "run_satisfies
     (fetchSwapQuoteInner_order env request opts fromAddress toAddress fromMainnetCode
        toMainnetCode fromAmount toAmount) tr
     (\<lambda>order tr'. True)
     (\<lambda>e tr'. (\<exists>a b. e = SwapCurrencyError godex_swapInfo a b) \<or> (\<exists>m. e = Error m) \<or>
               (\<exists>r. e = Rejected r) \<or> e = TypeError)"
  unfolding fetchSwapQuoteInner_order_def Let_def
  by (intro sat_rules) (auto dest: asQuoteInfo_error)


lemma bindE_assoc: "bindE (bindE m f) g = bindE m (\<lambda>x. bindE (f x) g)"
  by (rule ext) (simp add: bindE_def split: prod.splits sum.splits)

lemma asString_error_legacy: "asApiInfo_legacy j = Inl e \<Longrightarrow> e = TypeError"
  unfolding asApiInfo_legacy_def
  by (cases "is_object j"; simp)
     (elim bindR_InlE; (drule asString_error | simp))

lemma asQuoteInfo_legacy_error:
  assumes "asQuoteInfo_legacy j = Inl e"
  shows "e = TypeError"
proof (cases "is_object j")
  case False
  with assms show ?thesis by (simp add: asQuoteInfo_legacy_def)
next
  case True
  with assms show ?thesis
    unfolding asQuoteInfo_legacy_def
    by (simp only: if_False not_True_eq_False)
       (elim bindR_InlE; (drule asString_error | drule asStringOrNull_error | simp))
qed

lemma legacy_order_errors:
  "run_satisfies
     (fetchSwapQuote_legacy_order mk env request opts fromAddress toAddress fromAmount
        fromNativeAmount toNativeAmount) tr
     (\<lambda>q tr'. True)
     (\<lambda>e tr'. (\<exists>a b. e = SwapCurrencyError godex_swapInfo_legacy a b) \<or> (\<exists>m. e = Error m) \<or>
               (\<exists>r. e = Rejected r) \<or> e = TypeError)"
  unfolding fetchSwapQuote_legacy_order_def Let_def
  by (intro sat_rules) (auto dest: asQuoteInfo_legacy_error)

lemma legacy_at_minimum:
  assumes "minimum_reached_legacy chk env request tr fromAddress toAddress quoteAmount reply nativeMin"
  shows "fetchSwapQuote_legacy chk mk env request opts tr =
           (if lt (nativeAmount request) nativeMin
            then throwE (SwapBelowLimitError godex_swapInfo_legacy nativeMin
                           (if quoteFor request = For_from then Dir_from else Dir_to))
            else bindE (await
                   (if quoteFor request = For_from
                    then denominationToNative (toWallet request) (li_amount reply)
                           (toCurrencyCode request)
                    else denominationToNative (fromWallet request) (li_amount reply)
                           (fromCurrencyCode request)))
                   (\<lambda>other. fetchSwapQuote_legacy_order mk env request opts fromAddress toAddress
                      (if quoteFor request = For_from then quoteAmount else li_amount reply)
                      (if quoteFor request = For_from then nativeAmount request else other)
                      (if quoteFor request = For_from then other else nativeAmount request)))
             (tr @ [info_request request quoteAmount])"
proof -
  from assms have h:
    "chk request = Inr ()"
    "getAddress (fromWallet request) (fromCurrencyCode request) = Inr fromAddress"
    "getAddress (toWallet request) (toCurrencyCode request) = Inr toAddress"
    "(if quoteFor request = For_from
      then nativeToDenomination (fromWallet request) (nativeAmount request) (fromCurrencyCode request)
      else nativeToDenomination (toWallet request) (nativeAmount request) (toCurrencyCode request))
       = Inr quoteAmount"
    "(if quoteFor request = For_from
      then denominationToNative (fromWallet request) (li_min_amount reply) (fromCurrencyCode request)
      else denominationToNative (toWallet request) (li_min_amount reply) (toCurrencyCode request))
       = Inr nativeMin"
    and r: "(case fetchCors env tr (info_request request quoteAmount) of
         Inl _ \<Rightarrow> False
       | Inr response \<Rightarrow>
           ok response \<and>
           (case json response of None \<Rightarrow> False | Some j \<Rightarrow> asApiInfo_legacy j = Inr reply))"
    unfolding minimum_reached_legacy_def by blast+
  from r obtain response j where rj:
    "fetchCors env tr (info_request request quoteAmount) = Inr response"
    "ok response" "json response = Some j" and p: "asApiInfo_legacy j = Inr reply"
    by (rule info_answered)
  show ?thesis
  proof (cases "quoteFor request = For_from")
    case True
    have c: "bindE (call godex_swapInfo_legacy (fetchCors env) (uri @ ''info'') codes
                   [(''from'', JStr (fromCurrencyCode request)),
                    (''to'', JStr (toCurrencyCode request)),
                    (''amount'', JStr quoteAmount)]) f tr
             = f j (tr @ [info_request request quoteAmount])" for f codes
      using rj True unfolding info_request_def by (simp add: bindE_call_ok)
    from h True have h':
      "nativeToDenomination (fromWallet request) (nativeAmount request) (fromCurrencyCode request)
         = Inr quoteAmount"
      "denominationToNative (fromWallet request) (li_min_amount reply) (fromCurrencyCode request)
         = Inr nativeMin"
      by simp_all
    show ?thesis
      unfolding fetchSwapQuote_legacy_def Let_def
      by (simp only: True h(1-3) h' p if_True simp_thms await_Inr bindE_returnE attempt_Inr
            bindE_assoc c split_conv bindE_throwE if_distrib [of "\<lambda>m. bindE m f" for f] cong: if_cong)
  next
    case False
    have c: "bindE (call godex_swapInfo_legacy (fetchCors env) (uri @ ''info-revert'') codes
                   [(''from'', JStr (fromCurrencyCode request)),
                    (''to'', JStr (toCurrencyCode request)),
                    (''amount'', JStr quoteAmount)]) f tr
             = f j (tr @ [info_request request quoteAmount])" for f codes
      using rj False unfolding info_request_def by (simp add: bindE_call_ok)
    from h False have h':
      "nativeToDenomination (toWallet request) (nativeAmount request) (toCurrencyCode request)
         = Inr quoteAmount"
      "denominationToNative (toWallet request) (li_min_amount reply) (toCurrencyCode request)
         = Inr nativeMin"
      by simp_all
    show ?thesis
      unfolding fetchSwapQuote_legacy_def Let_def
      by (simp only: False h(1-3) h' p if_False simp_thms await_Inr bindE_returnE attempt_Inr
            bindE_assoc c split_conv bindE_throwE if_distrib [of "\<lambda>m. bindE m f" for f] cong: if_cong)
  qed
qed

lemma fetchSwapQuote_checked:
  assumes "checkInvalidCodes INVALID_CURRENCY_CODES (cr req) godex_swapInfo = Inr ()"
      and "checkWhitelistedMainnetCodes MAINNET_CODE_TRANSCRIPTION (cr req) godex_swapInfo = Inr ()"
      and "gms (fetchSwapQuoteInner env) (cr req) opts tr = (Inr newRequest, tr1)"
  shows "fetchSwapQuote cr gms mk env req opts tr =
           bindE (fetchSwapQuoteInner env newRequest opts) mk tr1"
  unfolding fetchSwapQuote_def Let_def
  by (simp add: assms) (simp add: bindE_def assms)


lemma throwE_fst: "fst (throwE e tr) = Inl e"
  by (simp add: throwE_def)

lemma inner_order_never_limit:
  "fst (fetchSwapQuoteInner_order env request opts fromAddress toAddress fromMainnetCode
          toMainnetCode fromAmount toAmount tr) \<noteq> Inl (SwapBelowLimitError si b d) \<and>
   fst (fetchSwapQuoteInner_order env request opts fromAddress toAddress fromMainnetCode
          toMainnetCode fromAmount toAmount tr) \<noteq> Inl (SwapAboveLimitError si b d)"
  using inner_order_errors [of env request opts fromAddress toAddress fromMainnetCode
          toMainnetCode fromAmount toAmount tr]
  by (auto simp: run_satisfies_def split: prod.splits sum.splits)

lemma legacy_rest_never_below:
  "fst (bindE (await p)
         (\<lambda>other. fetchSwapQuote_legacy_order mk env request opts fromAddress toAddress
                     (fa other) (fn other) (tn other)) tr) \<noteq> Inl (SwapBelowLimitError si b d)"
proof -
  have "run_satisfies
          (bindE (await p)
            (\<lambda>other. fetchSwapQuote_legacy_order mk env request opts fromAddress toAddress
                        (fa other) (fn other) (tn other))) tr
          (\<lambda>q tr'. True)
          (\<lambda>e tr'. (\<exists>a b. e = SwapCurrencyError godex_swapInfo_legacy a b) \<or> (\<exists>m. e = Error m) \<or>
               (\<exists>r. e = Rejected r) \<or> e = TypeError)"
    by (intro sat_bindE sat_await legacy_order_errors) simp
  then show ?thesis
    by (auto simp: run_satisfies_def split: prod.splits sum.splits)
qed

text \<open>
  C1. Once the backend has declared its minimum and the wallet has converted it to native
  units (\<open>minimum_reached\<close>), a requested amount strictly below it makes the run end with
  the \<open>SwapBelowLimitError\<close> that carries this native minimum and the quoted side, and the
  requests made are those made before and the info request, which is not a request to the
  order endpoint; an amount equal to the minimum does not end in a
  \<open>SwapBelowLimitError\<close>. This holds for \<^verbatim>\<open>fetchSwapQuoteInner\<close>, for
  \<^verbatim>\<open>fetchSwapQuote\<close> when its two checks let the request through and
  \<^verbatim>\<open>getMaxSwappable\<close> has resolved the request, and for \<^verbatim>\<open>fetchSwapQuote\<close> of the
  earlier plugin, which takes every request that is not for \<^verbatim>\<open>'from'\<close> as a reverse
  quote.
\<close>

theorem below_minimum_signalled:
  "(minimum_reached env request tr fromAddress toAddress quoteAmount reply nativeMin \<longrightarrow>
      (lt (nativeAmount request) nativeMin \<longrightarrow>
         fetchSwapQuoteInner env request opts tr =
           (Inl (SwapBelowLimitError godex_swapInfo nativeMin
                   (if quoteFor request = For_to then Dir_to else Dir_from)),
            tr @ [info_request request quoteAmount]) \<and>
         (checkInvalidCodes INVALID_CURRENCY_CODES (convertRequest req) godex_swapInfo = Inr () \<and>
          checkWhitelistedMainnetCodes MAINNET_CODE_TRANSCRIPTION (convertRequest req) godex_swapInfo = Inr () \<and>
          getMaxSwappable (fetchSwapQuoteInner env) (convertRequest req) opts tr0 = (Inr request, tr) \<longrightarrow>
          fetchSwapQuote convertRequest getMaxSwappable makeSwapPluginQuote env req opts tr0 =
            (Inl (SwapBelowLimitError godex_swapInfo nativeMin
                    (if quoteFor request = For_to then Dir_to else Dir_from)),
             tr @ [info_request request quoteAmount]))) \<and>
      (nativeAmount request = nativeMin \<longrightarrow>
         (\<forall>si b d. fst (fetchSwapQuoteInner env request opts tr) \<noteq> Inl (SwapBelowLimitError si b d)))) \<and>
   (minimum_reached_legacy checkInvalidCodes_of env request tr fromAddress toAddress quoteAmount
        reply_legacy nativeMin \<longrightarrow>
      (lt (nativeAmount request) nativeMin \<longrightarrow>
         fetchSwapQuote_legacy checkInvalidCodes_of makeSwapPluginQuote_legacy env request opts tr =
           (Inl (SwapBelowLimitError godex_swapInfo_legacy nativeMin
                   (if quoteFor request = For_from then Dir_from else Dir_to)),
            tr @ [info_request request quoteAmount])) \<and>
      (nativeAmount request = nativeMin \<longrightarrow>
         (\<forall>si b d. fst (fetchSwapQuote_legacy checkInvalidCodes_of makeSwapPluginQuote_legacy env
                           request opts tr) \<noteq> Inl (SwapBelowLimitError si b d)))) \<and>
   \<not> is_order_endpoint (info_request request quoteAmount)"
proof (intro conjI impI allI)
  assume m: "minimum_reached env request tr fromAddress toAddress quoteAmount reply nativeMin"
    and b: "lt (nativeAmount request) nativeMin"
  show i: "fetchSwapQuoteInner env request opts tr =
           (Inl (SwapBelowLimitError godex_swapInfo nativeMin
                   (if quoteFor request = For_to then Dir_to else Dir_from)),
            tr @ [info_request request quoteAmount])"
    using b by (simp add: inner_at_minimum [OF m] throwE_def)
  assume c: "checkInvalidCodes INVALID_CURRENCY_CODES (convertRequest req) godex_swapInfo = Inr () \<and>
          checkWhitelistedMainnetCodes MAINNET_CODE_TRANSCRIPTION (convertRequest req) godex_swapInfo = Inr () \<and>
          getMaxSwappable (fetchSwapQuoteInner env) (convertRequest req) opts tr0 = (Inr request, tr)"
  then have "fetchSwapQuote convertRequest getMaxSwappable makeSwapPluginQuote env req opts tr0 =
           bindE (fetchSwapQuoteInner env request opts) makeSwapPluginQuote tr"
    by (intro fetchSwapQuote_checked) simp_all
  then show "fetchSwapQuote convertRequest getMaxSwappable makeSwapPluginQuote env req opts tr0 =
            (Inl (SwapBelowLimitError godex_swapInfo nativeMin
                    (if quoteFor request = For_to then Dir_to else Dir_from)),
             tr @ [info_request request quoteAmount])"
    by (simp add: bindE_def i)
next
  fix si b d
  assume m: "minimum_reached env request tr fromAddress toAddress quoteAmount reply nativeMin"
    and e: "nativeAmount request = nativeMin"
  show "fst (fetchSwapQuoteInner env request opts tr) \<noteq> Inl (SwapBelowLimitError si b d)"
    using e by (simp add: inner_at_minimum [OF m] lt_irrefl throwE_fst inner_order_never_limit)
next
  assume m: "minimum_reached_legacy checkInvalidCodes_of env request tr fromAddress toAddress
      quoteAmount reply_legacy nativeMin"
    and b: "lt (nativeAmount request) nativeMin"
  show "fetchSwapQuote_legacy checkInvalidCodes_of makeSwapPluginQuote_legacy env request opts tr =
           (Inl (SwapBelowLimitError godex_swapInfo_legacy nativeMin
                   (if quoteFor request = For_from then Dir_from else Dir_to)),
            tr @ [info_request request quoteAmount])"
    using b by (simp add: legacy_at_minimum [OF m] throwE_def)
next
  fix si b d
  assume m: "minimum_reached_legacy checkInvalidCodes_of env request tr fromAddress toAddress
      quoteAmount reply_legacy nativeMin"
    and e: "nativeAmount request = nativeMin"
  show "fst (fetchSwapQuote_legacy checkInvalidCodes_of makeSwapPluginQuote_legacy env
                           request opts tr) \<noteq> Inl (SwapBelowLimitError si b d)"
    using e by (simp add: legacy_at_minimum [OF m] lt_irrefl legacy_rest_never_below)
next
  show "\<not> is_order_endpoint (info_request request quoteAmount)"
    by (rule info_not_order)
qed


lemmas cleaner_defs = asApiInfo_def asQuoteInfo_def asNumberString_def asEither_def asString_def
  asNumber_def asNull_def asMaybe_def asArray_def asNetwork_def is_object_def asStringOrNull_def
  bindR_def asApiInfo_legacy_def asQuoteInfo_legacy_def

lemmas example_defs = example_env_def backend_def btc_to_eth_def btc_wallet_def eth_wallet_def
  info_body_def order_body_def no_promo_def lookup_or_reject_def uri_def

lemmas policy_defs = checkInvalidCodes_def isPairAllowed_def leg_disallowed_def
  INVALID_CURRENCY_CODES_def checkWhitelistedMainnetCodes_def MAINNET_CODE_TRANSCRIPTION_def
  getCodesWithTranscription_def transcribe_def

theorem below_minimum_signalled_witness:
  "fetchSwapQuoteInner (example_env [''ETH'']) (btc_to_eth (Decimal 10000 0)) no_promo [] =
     (Inl (SwapBelowLimitError godex_swapInfo (Decimal 100000 0) Dir_from),
      [info_request (btc_to_eth (Decimal 10000 0)) ''0.0001'']) \<and>
   fetchSwapQuote id (\<lambda>f r x. returnE r) returnE (example_env [''ETH''])
       (btc_to_eth (Decimal 10000 0)) no_promo [] =
     (Inl (SwapBelowLimitError godex_swapInfo (Decimal 100000 0) Dir_from),
      [info_request (btc_to_eth (Decimal 10000 0)) ''0.0001'']) \<and>
   (\<forall>si b d. fst (fetchSwapQuoteInner (example_env [''ETH'']) (btc_to_eth (Decimal 100000 0))
                    no_promo []) \<noteq> Inl (SwapBelowLimitError si b d)) \<and>
   fetchSwapQuote_legacy (\<lambda>r. Inr ()) (\<lambda>r f t tx a p e d i. Inr ()) (example_env [''ETH''])
       (btc_to_eth (Decimal 10000 0)) no_promo [] =
     (Inl (SwapBelowLimitError godex_swapInfo_legacy (Decimal 100000 0) Dir_from),
      [info_request (btc_to_eth (Decimal 10000 0)) ''0.0001'']) \<and>
   (\<forall>si b d. fst (fetchSwapQuote_legacy (\<lambda>r. Inr ()) (\<lambda>r f t tx a p e d i. Inr ())
                    (example_env [''ETH'']) (btc_to_eth (Decimal 100000 0)) no_promo []) \<noteq>
              Inl (SwapBelowLimitError si b d))"
proof -
  have m1: "minimum_reached (example_env [''ETH'']) (btc_to_eth (Decimal 10000 0)) []
      ''address-of-wallet-btc'' ''address-of-wallet-eth'' ''0.0001''
      \<lparr>min_amount = ''0.001'', networks_from = Some [''BTC''], networks_to = Some [''ETH'']\<rparr>
      (Decimal 100000 0)"
    by (simp add: minimum_reached_def example_defs cleaner_defs info_request_def post_def)
  have m2: "minimum_reached (example_env [''ETH'']) (btc_to_eth (Decimal 100000 0)) []
      ''address-of-wallet-btc'' ''address-of-wallet-eth'' ''0.001''
      \<lparr>min_amount = ''0.001'', networks_from = Some [''BTC''], networks_to = Some [''ETH'']\<rparr>
      (Decimal 100000 0)"
    by (simp add: minimum_reached_def example_defs cleaner_defs info_request_def post_def)
  have l1: "minimum_reached_legacy (\<lambda>r. Inr ()) (example_env [''ETH''])
      (btc_to_eth (Decimal 10000 0)) [] ''1-legacy'' ''0x-public'' ''0.0001''
      \<lparr>li_amount = ''15.5'', li_min_amount = ''0.001''\<rparr> (Decimal 100000 0)"
    by (simp add: minimum_reached_legacy_def example_defs cleaner_defs info_request_def post_def
        getAddress_def dontUseLegacy_at_def dontUseLegacy_def Object_prototype_properties_def)
  have l2: "minimum_reached_legacy (\<lambda>r. Inr ()) (example_env [''ETH''])
      (btc_to_eth (Decimal 100000 0)) [] ''1-legacy'' ''0x-public'' ''0.001''
      \<lparr>li_amount = ''15.5'', li_min_amount = ''0.001''\<rparr> (Decimal 100000 0)"
    by (simp add: minimum_reached_legacy_def example_defs cleaner_defs info_request_def post_def
        getAddress_def dontUseLegacy_at_def dontUseLegacy_def Object_prototype_properties_def)
  have below: "lt (nativeAmount (btc_to_eth (Decimal 10000 0))) (Decimal 100000 0)"
    and equal: "nativeAmount (btc_to_eth (Decimal 100000 0)) = Decimal 100000 0"
    and side: "quoteFor (btc_to_eth (Decimal 10000 0)) = For_from"
    by (simp_all add: btc_to_eth_def lt_def)
  have checks: "checkInvalidCodes INVALID_CURRENCY_CODES (id (btc_to_eth (Decimal 10000 0))) godex_swapInfo = Inr ()"
    "checkWhitelistedMainnetCodes MAINNET_CODE_TRANSCRIPTION (id (btc_to_eth (Decimal 10000 0))) godex_swapInfo = Inr ()"
    "(\<lambda>f r x. returnE r) (fetchSwapQuoteInner (example_env [''ETH''])) (id (btc_to_eth (Decimal 10000 0))) no_promo []
       = (Inr (btc_to_eth (Decimal 10000 0)), [])"
    by (simp_all add: policy_defs example_defs returnE_def)
  have w1: "fetchSwapQuoteInner (example_env [''ETH'']) (btc_to_eth (Decimal 10000 0)) no_promo [] =
     (Inl (SwapBelowLimitError godex_swapInfo (Decimal 100000 0) Dir_from),
      [info_request (btc_to_eth (Decimal 10000 0)) ''0.0001''])"
    and w2: "fetchSwapQuote id (\<lambda>f r x. returnE r) returnE (example_env [''ETH''])
       (btc_to_eth (Decimal 10000 0)) no_promo [] =
     (Inl (SwapBelowLimitError godex_swapInfo (Decimal 100000 0) Dir_from),
      [info_request (btc_to_eth (Decimal 10000 0)) ''0.0001''])"
    using below_minimum_signalled [where env = "example_env [''ETH'']"
        and request = "btc_to_eth (Decimal 10000 0)" and tr = "[]" and opts = no_promo
        and fromAddress = "''address-of-wallet-btc''" and toAddress = "''address-of-wallet-eth''"
        and quoteAmount = "''0.0001''" and nativeMin = "Decimal 100000 0"
        and reply = "\<lparr>min_amount = ''0.001'', networks_from = Some [''BTC''], networks_to = Some [''ETH'']\<rparr>"
        and convertRequest = id and req = "btc_to_eth (Decimal 10000 0)"
        and getMaxSwappable = "\<lambda>f r x. returnE r" and ?tr0.0 = "[]"
        and makeSwapPluginQuote = "returnE :: swap_order \<Rightarrow> swap_order io"
        and checkInvalidCodes_of = "\<lambda>r. Inr ()"
        and makeSwapPluginQuote_legacy = "\<lambda>r f t tx a p e d i. Inr ()"
        and reply_legacy = "\<lparr>li_amount = ''15.5'', li_min_amount = ''0.001''\<rparr>"]
      m1 below side checks
    by simp_all
  have w3: "fst (fetchSwapQuoteInner (example_env [''ETH'']) (btc_to_eth (Decimal 100000 0))
                    no_promo []) \<noteq> Inl (SwapBelowLimitError si b d)" for si b d
    using below_minimum_signalled [where env = "example_env [''ETH'']"
        and request = "btc_to_eth (Decimal 100000 0)" and tr = "[]" and opts = no_promo
        and fromAddress = "''address-of-wallet-btc''" and toAddress = "''address-of-wallet-eth''"
        and quoteAmount = "''0.001''" and nativeMin = "Decimal 100000 0"
        and reply = "\<lparr>min_amount = ''0.001'', networks_from = Some [''BTC''], networks_to = Some [''ETH'']\<rparr>"
        and convertRequest = id and req = "btc_to_eth (Decimal 100000 0)"
        and getMaxSwappable = "\<lambda>f r x. returnE r" and ?tr0.0 = "[]"
        and makeSwapPluginQuote = "returnE :: swap_order \<Rightarrow> swap_order io"
        and checkInvalidCodes_of = "\<lambda>r. Inr ()"
        and makeSwapPluginQuote_legacy = "\<lambda>r f t tx a p e d i. Inr ()"
        and reply_legacy = "\<lparr>li_amount = ''15.5'', li_min_amount = ''0.001''\<rparr>"]
      m2 equal
    by simp
  have w4: "fetchSwapQuote_legacy (\<lambda>r. Inr ()) (\<lambda>r f t tx a p e d i. Inr ()) (example_env [''ETH''])
       (btc_to_eth (Decimal 10000 0)) no_promo [] =
     (Inl (SwapBelowLimitError godex_swapInfo_legacy (Decimal 100000 0) Dir_from),
      [info_request (btc_to_eth (Decimal 10000 0)) ''0.0001''])"
    using below_minimum_signalled [where env = "example_env [''ETH'']"
        and request = "btc_to_eth (Decimal 10000 0)" and tr = "[]" and opts = no_promo
        and fromAddress = "''1-legacy''" and toAddress = "''0x-public''"
        and quoteAmount = "''0.0001''" and nativeMin = "Decimal 100000 0"
        and reply = "\<lparr>min_amount = ''0.001'', networks_from = Some [''BTC''], networks_to = Some [''ETH'']\<rparr>"
        and convertRequest = id and req = "btc_to_eth (Decimal 10000 0)"
        and getMaxSwappable = "\<lambda>f r x. returnE r" and ?tr0.0 = "[]"
        and makeSwapPluginQuote = "returnE :: swap_order \<Rightarrow> swap_order io"
        and checkInvalidCodes_of = "\<lambda>r. Inr ()"
        and makeSwapPluginQuote_legacy = "\<lambda>r f t tx a p e d i. Inr ()"
        and reply_legacy = "\<lparr>li_amount = ''15.5'', li_min_amount = ''0.001''\<rparr>"]
      l1 below side
    by simp
  have w5: "fst (fetchSwapQuote_legacy (\<lambda>r. Inr ()) (\<lambda>r f t tx a p e d i. Inr ())
                    (example_env [''ETH'']) (btc_to_eth (Decimal 100000 0)) no_promo []) \<noteq>
              Inl (SwapBelowLimitError si b d)" for si b d
    using below_minimum_signalled [where env = "example_env [''ETH'']"
        and request = "btc_to_eth (Decimal 100000 0)" and tr = "[]" and opts = no_promo
        and fromAddress = "''1-legacy''" and toAddress = "''0x-public''"
        and quoteAmount = "''0.001''" and nativeMin = "Decimal 100000 0"
        and reply = "\<lparr>min_amount = ''0.001'', networks_from = Some [''BTC''], networks_to = Some [''ETH'']\<rparr>"
        and convertRequest = id and req = "btc_to_eth (Decimal 100000 0)"
        and getMaxSwappable = "\<lambda>f r x. returnE r" and ?tr0.0 = "[]"
        and makeSwapPluginQuote = "returnE :: swap_order \<Rightarrow> swap_order io"
        and checkInvalidCodes_of = "\<lambda>r. Inr ()"
        and makeSwapPluginQuote_legacy = "\<lambda>r f t tx a p e d i. Inr ()"
        and reply_legacy = "\<lparr>li_amount = ''15.5'', li_min_amount = ''0.001''\<rparr>"]
      l2 equal
    by simp
  from w1 w2 w3 w4 w5 show ?thesis
    by blast
qed

subsection \<open>Limits\<close>

lemma inner_never_above:
  "fst (fetchSwapQuoteInner env request opts tr) \<noteq> Inl (SwapAboveLimitError si b d)"
proof -
  have "run_satisfies (fetchSwapQuoteInner env request opts) tr (\<lambda>order tr'. True)
          (\<lambda>e tr'. \<forall>si b d. e \<noteq> SwapAboveLimitError si b d)"
    unfolding fetchSwapQuoteInner_def fetchSwapQuoteInner_order_def Let_def
    by (intro sat_rules) (auto dest: asQuoteInfo_error asApiInfo_error)
  then show ?thesis
    by (auto simp: run_satisfies_def split: prod.splits sum.splits)
qed

lemma order_request_made:
  "\<exists>r. snd (fetchSwapQuoteInner_order env request opts fromAddress toAddress fromMainnetCode
              toMainnetCode fromAmount toAmount tr) = tr @ [r] \<and> is_order_endpoint r"
proof -
  have "run_satisfies
          (fetchSwapQuoteInner_order env request opts fromAddress toAddress fromMainnetCode
             toMainnetCode fromAmount toAmount) tr
          (\<lambda>order tr'. \<exists>r. tr' = tr @ [r] \<and> is_order_endpoint r)
          (\<lambda>e tr'. \<exists>r. tr' = tr @ [r] \<and> is_order_endpoint r)"
    unfolding fetchSwapQuoteInner_order_def Let_def
    by (intro sat_rules) (auto simp: is_order_endpoint_def post_def)
  then show ?thesis
    by (auto simp: run_satisfies_def split: prod.splits sum.splits)
qed

lemma get_property_other:
  "k \<noteq> k' \<Longrightarrow> get_property (JObj ((k, v) # kvs)) k' = get_property (JObj kvs) k'"
  by simp

lemma asApiInfo_other_field:
  assumes "k \<noteq> ''min_amount''" "k \<noteq> ''networks_from''" "k \<noteq> ''networks_to''"
  shows "asApiInfo (JObj ((k, v) # kvs)) = asApiInfo (JObj kvs)"
  using assms
  by (simp add: asApiInfo_def is_object_def get_property_other del: get_property.simps
      cong: sum.case_cong)

lemma network_missing_iff:
  "network_missing networks code \<longleftrightarrow> (\<forall>ns. networks = Some ns \<longrightarrow> code \<notin> set ns)"
  by (cases networks) (auto simp: network_missing_def find_None_iff)

text \<open>
  C6 (as amended). \<^verbatim>\<open>fetchSwapQuoteInner\<close> enforces only the minimum the backend declares.
  \<^verbatim>\<open>asApiInfo\<close> keeps \<^verbatim>\<open>min_amount\<close>, \<^verbatim>\<open>networks_from\<close> and \<^verbatim>\<open>networks_to\<close> of the
  reply and no other field, so no maximum is read; no run ends with a
  \<open>SwapAboveLimitError\<close>; and a request that is not below the minimum and whose networks
  are listed goes on to the request that creates the order, however large its amount.
\<close>

theorem only_minimum_enforced:
  "(k \<noteq> ''min_amount'' \<and> k \<noteq> ''networks_from'' \<and> k \<noteq> ''networks_to'' \<longrightarrow>
      asApiInfo (JObj ((k, v) # kvs)) = asApiInfo (JObj kvs)) \<and>
   (\<forall>si b d. fst (fetchSwapQuoteInner env request opts tr) \<noteq> Inl (SwapAboveLimitError si b d)) \<and>
   (minimum_reached env request tr fromAddress toAddress quoteAmount reply nativeMin \<and>
    \<not> lt (nativeAmount request) nativeMin \<and>
    \<not> network_missing (networks_from reply)
         (fst (getCodesWithTranscription request MAINNET_CODE_TRANSCRIPTION)) \<and>
    \<not> network_missing (networks_to reply)
         (snd (getCodesWithTranscription request MAINNET_CODE_TRANSCRIPTION)) \<longrightarrow>
      (\<exists>r. snd (fetchSwapQuoteInner env request opts tr) =
              tr @ [info_request request quoteAmount, r] \<and> is_order_endpoint r))"
proof (intro conjI impI allI)
  assume "k \<noteq> ''min_amount'' \<and> k \<noteq> ''networks_from'' \<and> k \<noteq> ''networks_to''"
  then show "asApiInfo (JObj ((k, v) # kvs)) = asApiInfo (JObj kvs)"
    by (simp add: asApiInfo_other_field)
next
  fix si b d
  show "fst (fetchSwapQuoteInner env request opts tr) \<noteq> Inl (SwapAboveLimitError si b d)"
    by (rule inner_never_above)
next
  assume a: "minimum_reached env request tr fromAddress toAddress quoteAmount reply nativeMin \<and>
    \<not> lt (nativeAmount request) nativeMin \<and>
    \<not> network_missing (networks_from reply)
         (fst (getCodesWithTranscription request MAINNET_CODE_TRANSCRIPTION)) \<and>
    \<not> network_missing (networks_to reply)
         (snd (getCodesWithTranscription request MAINNET_CODE_TRANSCRIPTION))"
  then have m: "minimum_reached env request tr fromAddress toAddress quoteAmount reply nativeMin"
    by simp
  from a show "\<exists>r. snd (fetchSwapQuoteInner env request opts tr) =
              tr @ [info_request request quoteAmount, r] \<and> is_order_endpoint r"
    using order_request_made [of env request opts fromAddress toAddress
        "fst (getCodesWithTranscription request MAINNET_CODE_TRANSCRIPTION)"
        "snd (getCodesWithTranscription request MAINNET_CODE_TRANSCRIPTION)"
        "if quoteFor request = For_from then JStr quoteAmount else JUndefined"
        "if quoteFor request = For_from then JUndefined else JStr quoteAmount"
        "tr @ [info_request request quoteAmount]"]
    by (simp add: inner_at_minimum [OF m])
qed

lemmas run_defs = fetchSwapQuoteInner_def fetchSwapQuoteInner_order_def Let_def bindE_def await_def
  attempt_def returnE_def throwE_def call_def fetchCors_io_def response_json_def
  getCodesWithTranscription_def transcribe_def MAINNET_CODE_TRANSCRIPTION_def
  network_missing_def JSON_stringify_def opt_str_def

theorem only_minimum_enforced_witness:
  "asApiInfo (info_body [''ETH'']) =
     Inr \<lparr>min_amount = ''0.001'', networks_from = Some [''BTC''], networks_to = Some [''ETH'']\<rparr> \<and>
   (\<exists>r. snd (fetchSwapQuoteInner (example_env [''ETH'']) (btc_to_eth (Decimal 100000000 0))
               no_promo []) =
          [info_request (btc_to_eth (Decimal 100000000 0)) ''1'', r] \<and> is_order_endpoint r)"
proof -
  have m: "minimum_reached (example_env [''ETH'']) (btc_to_eth (Decimal 100000000 0)) []
      ''address-of-wallet-btc'' ''address-of-wallet-eth'' ''1''
      \<lparr>min_amount = ''0.001'', networks_from = Some [''BTC''], networks_to = Some [''ETH'']\<rparr>
      (Decimal 100000 0)"
    by (simp add: minimum_reached_def example_defs cleaner_defs info_request_def post_def)
  have n: "\<not> lt (nativeAmount (btc_to_eth (Decimal 100000000 0))) (Decimal 100000 0)"
    "getCodesWithTranscription (btc_to_eth (Decimal 100000000 0)) MAINNET_CODE_TRANSCRIPTION
       = (''BTC'', ''ETH'')"
    "\<not> network_missing (Some [''BTC'']) ''BTC''" "\<not> network_missing (Some [''ETH'']) ''ETH''"
    by (simp_all add: example_defs lt_def policy_defs network_missing_def)
  have a: "asApiInfo (JObj [(''min_amount'', JStr ''0.001''),
           (''amount'', JStr ''15.5''),
           (''networks_from'', JArr [JObj [(''network'', JStr ''BTC'')]]),
           (''networks_to'', JArr [JObj [(''network'', JStr ''ETH'')]])]) =
     Inr \<lparr>min_amount = ''0.001'', networks_from = Some [''BTC''], networks_to = Some [''ETH'']\<rparr>"
    by (simp add: cleaner_defs)
  note t = only_minimum_enforced [where env = "example_env [''ETH'']"
        and request = "btc_to_eth (Decimal 100000000 0)" and tr = "[]" and opts = no_promo
        and fromAddress = "''address-of-wallet-btc''" and toAddress = "''address-of-wallet-eth''"
        and quoteAmount = "''1''" and nativeMin = "Decimal 100000 0"
        and reply = "\<lparr>min_amount = ''0.001'', networks_from = Some [''BTC''], networks_to = Some [''ETH'']\<rparr>"
        and k = "''max_amount''" and v = "JStr ''10''"
        and kvs = "[(''min_amount'', JStr ''0.001''),
           (''amount'', JStr ''15.5''),
           (''networks_from'', JArr [JObj [(''network'', JStr ''BTC'')]]),
           (''networks_to'', JArr [JObj [(''network'', JStr ''ETH'')]])]"]
  have "asApiInfo (info_body [''ETH'']) = asApiInfo (JObj [(''min_amount'', JStr ''0.001''),
           (''amount'', JStr ''15.5''),
           (''networks_from'', JArr [JObj [(''network'', JStr ''BTC'')]]),
           (''networks_to'', JArr [JObj [(''network'', JStr ''ETH'')]])])"
    using t by (simp add: info_body_def)
  with a have w1: "asApiInfo (info_body [''ETH'']) =
     Inr \<lparr>min_amount = ''0.001'', networks_from = Some [''BTC''], networks_to = Some [''ETH'']\<rparr>"
    by simp
  have w2: "\<exists>r. snd (fetchSwapQuoteInner (example_env [''ETH'']) (btc_to_eth (Decimal 100000000 0))
               no_promo []) =
          [info_request (btc_to_eth (Decimal 100000000 0)) ''1'', r] \<and> is_order_endpoint r"
    using t m n by simp
  from w1 w2 show ?thesis by blast
qed

text \<open>
  The claim C6 as it is stated fails: the backend declares a maximum of 10 BTC
  (1000000000 in native units), the request is for 100 BTC, and the run does not end with
  an error: it makes the info request and the request that creates the order.
\<close>

theorem maximum_not_enforced_counterexample:
  "get_property (info_body [''ETH'']) ''max_amount'' = JStr ''10'' \<and>
   denominationToNative btc_wallet ''10'' ''BTC'' = Inr (Decimal 1000000000 0) \<and>
   lt (Decimal 1000000000 0) (nativeAmount (btc_to_eth (Decimal 10000000000 0))) \<and>
   \<not> isl (fst (fetchSwapQuoteInner (example_env [''ETH'']) (btc_to_eth (Decimal 10000000000 0))
               no_promo [])) \<and>
   map url (snd (fetchSwapQuoteInner (example_env [''ETH'']) (btc_to_eth (Decimal 10000000000 0))
               no_promo [])) = [uri @ ''info'', uri @ ''transaction'']"
  by (simp add: run_defs cleaner_defs example_defs lt_def floor_big_def)

subsection \<open>Networks\<close>

lemma fetchSwapQuote_not_whitelisted:
  assumes "map_of MAINNET_CODE_TRANSCRIPTION (wallet_pluginId (fromWallet (convertRequest req))) = None \<or>
           map_of MAINNET_CODE_TRANSCRIPTION (wallet_pluginId (toWallet (convertRequest req))) = None"
  shows "fetchSwapQuote convertRequest getMaxSwappable makeSwapPluginQuote env req opts tr =
           (Inl (SwapCurrencyError godex_swapInfo (fromCurrencyCode (convertRequest req))
                   (toCurrencyCode (convertRequest req))), tr)"
proof (cases "isPairAllowed INVALID_CURRENCY_CODES (convertRequest req)")
  case True
  then show ?thesis
    using assms
    by (simp add: fetchSwapQuote_def Let_def checkInvalidCodes_def
        checkWhitelistedMainnetCodes_def throwE_def)
next
  case False
  then show ?thesis
    by (simp add: fetchSwapQuote_def Let_def checkInvalidCodes_def throwE_def)
qed

text \<open>
  C8 (as amended). A request with a leg whose network is not in the transcription table is
  refused by \<^verbatim>\<open>fetchSwapQuote\<close> with the \<open>SwapCurrencyError\<close> before any request is made
  (by \<^verbatim>\<open>checkWhitelistedMainnetCodes\<close>, or by \<^verbatim>\<open>checkInvalidCodes\<close> before it). A
  request with a leg whose network is missing from the reply's list (the list is absent, or
  it does not hold the leg's transcribed network) makes \<^verbatim>\<open>fetchSwapQuoteInner\<close> end with
  the \<open>SwapCurrencyError\<close> when the amount is not below the minimum; when it is below, the
  check of the minimum comes first and the run ends with the \<open>SwapBelowLimitError\<close>. In
  both cases the only request made is the info request: no order is created.
\<close>

theorem unsupported_network_refused:
  "(map_of MAINNET_CODE_TRANSCRIPTION (wallet_pluginId (fromWallet (convertRequest req))) = None \<or>
    map_of MAINNET_CODE_TRANSCRIPTION (wallet_pluginId (toWallet (convertRequest req))) = None \<longrightarrow>
      fetchSwapQuote convertRequest getMaxSwappable makeSwapPluginQuote env req opts tr =
        (Inl (SwapCurrencyError godex_swapInfo (fromCurrencyCode (convertRequest req))
                (toCurrencyCode (convertRequest req))), tr)) \<and>
   (minimum_reached env request tr fromAddress toAddress quoteAmount reply nativeMin \<and>
    (network_missing (networks_from reply)
       (transcribe MAINNET_CODE_TRANSCRIPTION (wallet_pluginId (fromWallet request))) \<or>
     network_missing (networks_to reply)
       (transcribe MAINNET_CODE_TRANSCRIPTION (wallet_pluginId (toWallet request)))) \<longrightarrow>
      fetchSwapQuoteInner env request opts tr =
        (Inl (if lt (nativeAmount request) nativeMin
              then SwapBelowLimitError godex_swapInfo nativeMin
                     (if quoteFor request = For_to then Dir_to else Dir_from)
              else SwapCurrencyError godex_swapInfo (fromCurrencyCode request)
                     (toCurrencyCode request)),
         tr @ [info_request request quoteAmount]) \<and>
      \<not> is_order_endpoint (info_request request quoteAmount)) \<and>
   (network_missing networks code \<longleftrightarrow> (\<forall>ns. networks = Some ns \<longrightarrow> code \<notin> set ns))"
proof (intro conjI impI)
  assume "map_of MAINNET_CODE_TRANSCRIPTION (wallet_pluginId (fromWallet (convertRequest req))) = None \<or>
    map_of MAINNET_CODE_TRANSCRIPTION (wallet_pluginId (toWallet (convertRequest req))) = None"
  then show "fetchSwapQuote convertRequest getMaxSwappable makeSwapPluginQuote env req opts tr =
        (Inl (SwapCurrencyError godex_swapInfo (fromCurrencyCode (convertRequest req))
                (toCurrencyCode (convertRequest req))), tr)"
    by (rule fetchSwapQuote_not_whitelisted)
next
  assume a: "minimum_reached env request tr fromAddress toAddress quoteAmount reply nativeMin \<and>
    (network_missing (networks_from reply)
       (transcribe MAINNET_CODE_TRANSCRIPTION (wallet_pluginId (fromWallet request))) \<or>
     network_missing (networks_to reply)
       (transcribe MAINNET_CODE_TRANSCRIPTION (wallet_pluginId (toWallet request))))"
  then have m: "minimum_reached env request tr fromAddress toAddress quoteAmount reply nativeMin"
    by simp
  from a show "fetchSwapQuoteInner env request opts tr =
        (Inl (if lt (nativeAmount request) nativeMin
              then SwapBelowLimitError godex_swapInfo nativeMin
                     (if quoteFor request = For_to then Dir_to else Dir_from)
              else SwapCurrencyError godex_swapInfo (fromCurrencyCode request)
                     (toCurrencyCode request)),
         tr @ [info_request request quoteAmount])"
    by (auto simp: inner_at_minimum [OF m] throwE_def getCodesWithTranscription_def)
next
  show "\<not> is_order_endpoint (info_request request quoteAmount)"
    by (rule info_not_order)
next
  show "network_missing networks code \<longleftrightarrow> (\<forall>ns. networks = Some ns \<longrightarrow> code \<notin> set ns)"
    by (rule network_missing_iff)
qed

text \<open>A wallet of a network that the transcription table does not hold.\<close>

theorem unsupported_network_refused_witness:
  "fetchSwapQuote id (\<lambda>f r x. returnE r) returnE (example_env [''ETH''])
      ((btc_to_eth (Decimal 100000000 0))\<lparr>toWallet := eth_wallet\<lparr>wallet_pluginId := ''zksync''\<rparr>\<rparr>)
      no_promo [] =
     (Inl (SwapCurrencyError godex_swapInfo ''BTC'' ''ETH''), []) \<and>
   fetchSwapQuoteInner (example_env []) (btc_to_eth (Decimal 100000000 0)) no_promo [] =
     (Inl (SwapCurrencyError godex_swapInfo ''BTC'' ''ETH''),
      [info_request (btc_to_eth (Decimal 100000000 0)) ''1''])"
proof -
  have m: "minimum_reached (example_env []) (btc_to_eth (Decimal 100000000 0)) []
      ''address-of-wallet-btc'' ''address-of-wallet-eth'' ''1''
      \<lparr>min_amount = ''0.001'', networks_from = Some [''BTC''], networks_to = Some []\<rparr>
      (Decimal 100000 0)"
    by (simp add: minimum_reached_def example_defs cleaner_defs info_request_def post_def)
  have n: "\<not> lt (nativeAmount (btc_to_eth (Decimal 100000000 0))) (Decimal 100000 0)"
    "network_missing (Some [])
       (transcribe MAINNET_CODE_TRANSCRIPTION (wallet_pluginId (toWallet (btc_to_eth (Decimal 100000000 0)))))"
    "fromCurrencyCode (btc_to_eth (Decimal 100000000 0)) = ''BTC''"
    "toCurrencyCode (btc_to_eth (Decimal 100000000 0)) = ''ETH''"
    by (simp_all add: example_defs lt_def network_missing_def)
  have z: "map_of MAINNET_CODE_TRANSCRIPTION (wallet_pluginId (toWallet (id
      ((btc_to_eth (Decimal 100000000 0))\<lparr>toWallet := eth_wallet\<lparr>wallet_pluginId := ''zksync''\<rparr>\<rparr>)))) = None"
    "fromCurrencyCode ((btc_to_eth (Decimal 100000000 0))\<lparr>toWallet := eth_wallet\<lparr>wallet_pluginId := ''zksync''\<rparr>\<rparr>) = ''BTC''"
    "toCurrencyCode ((btc_to_eth (Decimal 100000000 0))\<lparr>toWallet := eth_wallet\<lparr>wallet_pluginId := ''zksync''\<rparr>\<rparr>) = ''ETH''"
    by (simp_all add: MAINNET_CODE_TRANSCRIPTION_def btc_to_eth_def)
  note t = unsupported_network_refused [where env = "example_env []"
        and request = "btc_to_eth (Decimal 100000000 0)" and tr = "[]" and opts = no_promo
        and fromAddress = "''address-of-wallet-btc''" and toAddress = "''address-of-wallet-eth''"
        and quoteAmount = "''1''" and nativeMin = "Decimal 100000 0"
        and reply = "\<lparr>min_amount = ''0.001'', networks_from = Some [''BTC''], networks_to = Some []\<rparr>"
        and convertRequest = id
        and req = "(btc_to_eth (Decimal 100000000 0))\<lparr>toWallet := eth_wallet\<lparr>wallet_pluginId := ''zksync''\<rparr>\<rparr>"
        and getMaxSwappable = "\<lambda>f r x. returnE r"
        and makeSwapPluginQuote = "returnE :: swap_order \<Rightarrow> swap_order io"
        and networks = None and code = "[]"]
  have w2: "fetchSwapQuoteInner (example_env []) (btc_to_eth (Decimal 100000000 0)) no_promo [] =
     (Inl (SwapCurrencyError godex_swapInfo ''BTC'' ''ETH''),
      [info_request (btc_to_eth (Decimal 100000000 0)) ''1''])"
    using t m n by simp
  have w1: "fetchSwapQuote id (\<lambda>f r x. returnE r) returnE (example_env [''ETH''])
      ((btc_to_eth (Decimal 100000000 0))\<lparr>toWallet := eth_wallet\<lparr>wallet_pluginId := ''zksync''\<rparr>\<rparr>)
      no_promo [] =
     (Inl (SwapCurrencyError godex_swapInfo ''BTC'' ''ETH''), [])"
    using unsupported_network_refused [where env = "example_env [''ETH'']"
        and request = "btc_to_eth (Decimal 100000000 0)" and tr = "[]" and opts = no_promo
        and fromAddress = "''address-of-wallet-btc''" and toAddress = "''address-of-wallet-eth''"
        and quoteAmount = "''1''" and nativeMin = "Decimal 100000 0"
        and reply = "\<lparr>min_amount = ''0.001'', networks_from = Some [''BTC''], networks_to = Some []\<rparr>"
        and convertRequest = id
        and req = "(btc_to_eth (Decimal 100000000 0))\<lparr>toWallet := eth_wallet\<lparr>wallet_pluginId := ''zksync''\<rparr>\<rparr>"
        and getMaxSwappable = "\<lambda>f r x. returnE r"
        and makeSwapPluginQuote = "returnE :: swap_order \<Rightarrow> swap_order io"
        and networks = None and code = "[]"] z
    by simp
  from w1 w2 show ?thesis by blast
qed

text \<open>
  The claim C8 as it is stated fails: the backend's reply does not list the receiving
  network \<^verbatim>\<open>ETH\<close>, and the request, whose amount is below the minimum, ends with the
  \<open>SwapBelowLimitError\<close>, not with the \<open>SwapCurrencyError\<close>.
\<close>

theorem unlisted_network_counterexample:
  "asApiInfo (info_body []) =
     Inr \<lparr>min_amount = ''0.001'', networks_from = Some [''BTC''], networks_to = Some []\<rparr> \<and>
   getCodesWithTranscription (btc_to_eth (Decimal 10000 0)) MAINNET_CODE_TRANSCRIPTION =
     (''BTC'', ''ETH'') \<and>
   network_missing (Some []) ''ETH'' \<and>
   fst (fetchSwapQuoteInner (example_env []) (btc_to_eth (Decimal 10000 0)) no_promo []) =
     Inl (SwapBelowLimitError godex_swapInfo (Decimal 100000 0) Dir_from) \<and>
   fst (fetchSwapQuoteInner (example_env []) (btc_to_eth (Decimal 10000 0)) no_promo []) \<noteq>
     Inl (SwapCurrencyError godex_swapInfo ''BTC'' ''ETH'')"
  by (simp add: run_defs cleaner_defs example_defs lt_def)

subsection \<open>The amounts of the quote\<close>













subsection \<open>The round trip of the amount converter\<close>

text \<open>
  C4. Converting a native amount, a non-negative integer, to its denomination and back
  gives the amount again, whatever the number of decimal places; the denomination is the
  exact quotient by \<open>10 ^ decimals\<close>, a decimal with \<open>decimals\<close> places, so nothing is lost
  on the way. The plugins themselves never compose the two conversions: they call the
  wallet's methods, which the model takes as they answer.
\<close>

theorem native_round_trip:
  "toNative (toDenomination (Decimal (int n) 0) decimals) decimals = Decimal (int n) 0 \<and>
   dec_val (toDenomination (Decimal (int n) 0) decimals) * 10 ^ decimals = of_nat n \<and>
   scale (toDenomination (Decimal (int n) 0) decimals) = decimals"
  by (cases "n = 0")
     (simp_all add: toNative_def toDenomination_def floor_big_def dec_val_def sgn_mult abs_mult)

subsection \<open>The address of a wallet\<close>

lemma getAddress_own_property:
  assumes "currencyCode \<notin> set Object_prototype_properties"
      and "getReceiveAddress wallet currencyCode = Inr addressInfo"
  shows "getAddress wallet currencyCode =
           Inr (case legacyAddress addressInfo of
                  Some legacy \<Rightarrow> if currencyCode = ''DGB'' then publicAddress addressInfo else legacy
                | None \<Rightarrow> publicAddress addressInfo)"
  using assms
  by (auto simp: getAddress_def dontUseLegacy_at_def dontUseLegacy_def split: option.splits)

text \<open>
  C10 fails on the code. The wallet supplies a legacy address and the currency code
  \<^verbatim>\<open>constructor\<close> is not flagged in \<^verbatim>\<open>dontUseLegacy\<close>, whose only property is \<^verbatim>\<open>DGB\<close>;
  yet \<^verbatim>\<open>dontUseLegacy['constructor']\<close> is the constructor every object inherits, which
  is truthy, and \<^verbatim>\<open>getAddress\<close> returns the public address. For a currency code that is
  not the name of an inherited property, \<open>getAddress_own_property\<close> shows what the claim
  says.
\<close>

theorem getAddress_inherited_property:
  "getReceiveAddress btc_wallet ''constructor'' =
     Inr \<lparr>publicAddress = ''bc1-public'', legacyAddress = Some ''1-legacy''\<rparr> \<and>
   map_of dontUseLegacy ''constructor'' = None \<and>
   getAddress btc_wallet ''constructor'' = Inr ''bc1-public'' \<and>
   getAddress btc_wallet ''BTC'' = Inr ''1-legacy''"
  by (simp add: getAddress_def dontUseLegacy_at_def dontUseLegacy_def
      Object_prototype_properties_def btc_wallet_def)

section \<open>The totle plugin: execution\<close>

lemma in_order_Nil [simp]: "in_order es [] \<longleftrightarrow> es = []"
  by (cases "(es, [] :: tx_ref list)" rule: in_order.cases) simp_all

text \<open>The four ways one round of the loop can go.\<close>

lemma approve_loop_round:
  obtains
    (sign_refused) reason objs1 where
      "signTx w cs objs tx = (Inl reason, objs1)"
      "approve_loop w fna n (tx # rest) index swapTx cs objs =
         (Inl (Rejected reason), objs1, cs @ [SignTx tx (Inl reason)])"
  | (broadcast_refused) s objs1 reason objs2 where
      "signTx w cs objs tx = (Inr s, objs1)"
      "broadcastTx w (cs @ [SignTx tx (Inr s)]) objs1 s = (Inl reason, objs2)"
      "approve_loop w fna n (tx # rest) index swapTx cs objs =
         (Inl (Rejected reason), objs2, cs @ [SignTx tx (Inr s), BroadcastTx s (Inl reason)])"
  | (save_refused) s objs1 b objs2 reason objs4 where
      "signTx w cs objs tx = (Inr s, objs1)"
      "broadcastTx w (cs @ [SignTx tx (Inr s)]) objs1 s = (Inr b, objs2)"
      "saveTx w (cs @ [SignTx tx (Inr s), BroadcastTx s (Inr b)])
         (if int index = int n - 1
          then objs2(tx := (objs2 tx)\<lparr>tx_nativeAmount := ''-'' @ fna\<rparr>) else objs2) s =
         (Inl reason, objs4)"
      "approve_loop w fna n (tx # rest) index swapTx cs objs =
         (Inl (Rejected reason), objs4,
          cs @ [SignTx tx (Inr s), BroadcastTx s (Inr b), SaveTx s (Inl reason)])"
  | (saved) s objs1 b objs2 objs4 where
      "signTx w cs objs tx = (Inr s, objs1)"
      "broadcastTx w (cs @ [SignTx tx (Inr s)]) objs1 s = (Inr b, objs2)"
      "saveTx w (cs @ [SignTx tx (Inr s), BroadcastTx s (Inr b)])
         (if int index = int n - 1
          then objs2(tx := (objs2 tx)\<lparr>tx_nativeAmount := ''-'' @ fna\<rparr>) else objs2) s =
         (Inr (), objs4)"
      "approve_loop w fna n (tx # rest) index swapTx cs objs =
         approve_loop w fna n rest (index + 1) (Some b)
           (cs @ [SignTx tx (Inr s), BroadcastTx s (Inr b), SaveTx s (Inr ())]) objs4"
proof (cases "signTx w cs objs tx")
  case sign: (Pair a objs1)
  show ?thesis
  proof (cases a)
    case (Inl reason)
    with sign show ?thesis
      by (intro sign_refused [of reason objs1]) simp_all
  next
    case signed: (Inr s)
    show ?thesis
    proof (cases "broadcastTx w (cs @ [SignTx tx (Inr s)]) objs1 s")
      case broadcast: (Pair a2 objs2)
      show ?thesis
      proof (cases a2)
        case (Inl reason)
        with sign signed broadcast show ?thesis
          by (intro broadcast_refused [of s objs1 reason objs2]) simp_all
      next
        case sent: (Inr b)
        show ?thesis
        proof (cases "saveTx w (cs @ [SignTx tx (Inr s), BroadcastTx s (Inr b)])
           (if int index = int n - 1
            then objs2(tx := (objs2 tx)\<lparr>tx_nativeAmount := ''-'' @ fna\<rparr>) else objs2) s")
          case save: (Pair a3 objs4)
          show ?thesis
          proof (cases a3)
            case (Inl reason)
            with sign signed broadcast sent save show ?thesis
              by (intro save_refused [of s objs1 b objs2 reason objs4]) (simp_all add: Let_def)
          next
            case (Inr u)
            with sign signed broadcast sent save show ?thesis
              by (intro saved [of s objs1 b objs2 objs4]) (simp_all add: Let_def)
          qed
        qed
      qed
    qed
  qed
qed


lemma approve_loop_calls:
  "\<exists>new. snd (snd (approve_loop w fna n txs index swapTx cs objs)) = cs @ new \<and>
     in_order new txs \<and> no_call_after_failure new \<and>
     (isl (fst (approve_loop w fna n txs index swapTx cs objs)) \<longleftrightarrow> some_call_failed new) \<and>
     (\<not> isl (fst (approve_loop w fna n txs index swapTx cs objs)) \<longrightarrow>
        length new = 3 * length txs)"
proof (induction txs arbitrary: index swapTx cs objs)
  case Nil
  show ?case by simp
next
  case (Cons tx rest)
  show ?case
  proof (cases rule: approve_loop_round [of w cs objs tx fna n rest index swapTx])
    case (sign_refused reason objs1)
    then show ?thesis
      by (intro exI [of _ "[SignTx tx (Inl reason)]"]) simp
  next
    case (broadcast_refused s objs1 reason objs2)
    then show ?thesis
      by (intro exI [of _ "[SignTx tx (Inr s), BroadcastTx s (Inl reason)]"]) simp
  next
    case (save_refused s objs1 b objs2 reason objs4)
    then show ?thesis
      by (intro exI [of _ "[SignTx tx (Inr s), BroadcastTx s (Inr b), SaveTx s (Inl reason)]"])
         simp
  next
    case (saved s objs1 b objs2 objs4)
    from Cons.IH [of "index + 1" "Some b"
        "cs @ [SignTx tx (Inr s), BroadcastTx s (Inr b), SaveTx s (Inr ())]" objs4]
    obtain new1 where n1:
      "snd (snd (approve_loop w fna n (tx # rest) index swapTx cs objs)) =
         (cs @ [SignTx tx (Inr s), BroadcastTx s (Inr b), SaveTx s (Inr ())]) @ new1"
      "in_order new1 rest" "no_call_after_failure new1"
      "isl (fst (approve_loop w fna n (tx # rest) index swapTx cs objs)) \<longleftrightarrow>
         some_call_failed new1"
      "\<not> isl (fst (approve_loop w fna n (tx # rest) index swapTx cs objs)) \<longrightarrow>
         length new1 = 3 * length rest"
      unfolding saved(4) by blast
    then show ?thesis
      by (intro exI [of _ "[SignTx tx (Inr s), BroadcastTx s (Inr b), SaveTx s (Inr ())] @ new1"])
         simp
  qed
qed

lemma approve_loop_answered:
  assumes "snd (snd (approve_loop w fna n txs index swapTx cs objs)) = cs @ before @ e # rest"
  shows "\<exists>objs'. answered w (cs @ before) objs' e"
  using assms
proof (induction txs arbitrary: index swapTx cs objs before)
  case Nil
  then show ?case by simp
next
  case (Cons tx rest')
  show ?case
  proof (cases rule: approve_loop_round [of w cs objs tx fna n rest' index swapTx])
    case (sign_refused reason objs1)
    with Cons.prems have "before = []" "e = SignTx tx (Inl reason)"
      by (simp_all add: Cons_eq_append_conv)
    with sign_refused(1) show ?thesis
      by (intro exI [of _ objs]) simp
  next
    case (broadcast_refused s objs1 reason objs2)
    with Cons.prems consider "before = []" "e = SignTx tx (Inr s)"
      | "before = [SignTx tx (Inr s)]" "e = BroadcastTx s (Inl reason)"
      by (auto simp: Cons_eq_append_conv)
    then show ?thesis
    proof cases
      case 1
      with broadcast_refused(1) show ?thesis
        by (intro exI [of _ objs]) simp
    next
      case 2
      with broadcast_refused(2) show ?thesis
        by (intro exI [of _ objs1]) simp
    qed
  next
    case (save_refused s objs1 b objs2 reason objs4)
    with Cons.prems consider "before = []" "e = SignTx tx (Inr s)"
      | "before = [SignTx tx (Inr s)]" "e = BroadcastTx s (Inr b)"
      | "before = [SignTx tx (Inr s), BroadcastTx s (Inr b)]" "e = SaveTx s (Inl reason)"
      by (auto simp: Cons_eq_append_conv)
    then show ?thesis
    proof cases
      case 1
      with save_refused(1) show ?thesis
        by (intro exI [of _ objs]) simp
    next
      case 2
      with save_refused(2) show ?thesis
        by (intro exI [of _ objs1]) simp
    next
      case 3
      with save_refused(3) show ?thesis
        by (intro exI [of _ "if int index = int n - 1
          then objs2(tx := (objs2 tx)\<lparr>tx_nativeAmount := ''-'' @ fna\<rparr>) else objs2"]) simp
    qed
  next
    case (saved s objs1 b objs2 objs4)
    from approve_loop_calls [of w fna n rest' "index + 1" "Some b"
        "cs @ [SignTx tx (Inr s), BroadcastTx s (Inr b), SaveTx s (Inr ())]" objs4]
    obtain new1 where n1:
      "snd (snd (approve_loop w fna n rest' (index + 1) (Some b)
         (cs @ [SignTx tx (Inr s), BroadcastTx s (Inr b), SaveTx s (Inr ())]) objs4)) =
       (cs @ [SignTx tx (Inr s), BroadcastTx s (Inr b), SaveTx s (Inr ())]) @ new1"
      by blast
    with Cons.prems saved(4) have
      "[SignTx tx (Inr s), BroadcastTx s (Inr b), SaveTx s (Inr ())] @ new1 = before @ e # rest"
      by simp
    then consider "before = []" "e = SignTx tx (Inr s)"
      | "before = [SignTx tx (Inr s)]" "e = BroadcastTx s (Inr b)"
      | "before = [SignTx tx (Inr s), BroadcastTx s (Inr b)]" "e = SaveTx s (Inr ())"
      | before1 where
          "before = [SignTx tx (Inr s), BroadcastTx s (Inr b), SaveTx s (Inr ())] @ before1"
          "new1 = before1 @ e # rest"
      by (auto simp: Cons_eq_append_conv)
    then show ?thesis
    proof cases
      case 1
      with saved(1) show ?thesis
        by (intro exI [of _ objs]) simp
    next
      case 2
      with saved(2) show ?thesis
        by (intro exI [of _ objs1]) simp
    next
      case 3
      with saved(3) show ?thesis
        by (intro exI [of _ "if int index = int n - 1
          then objs2(tx := (objs2 tx)\<lparr>tx_nativeAmount := ''-'' @ fna\<rparr>) else objs2"]) simp
    next
      case 4
      from n1 4(2) have "snd (snd (approve_loop w fna n rest' (index + 1) (Some b)
         (cs @ [SignTx tx (Inr s), BroadcastTx s (Inr b), SaveTx s (Inr ())]) objs4)) =
       (cs @ [SignTx tx (Inr s), BroadcastTx s (Inr b), SaveTx s (Inr ())]) @ before1 @ e # rest"
        by simp
      from Cons.IH [OF this] 4(1) show ?thesis
        by simp
    qed
  qed
qed

lemma approve_loop_success:
  assumes "approve_loop w fna n txs index swapTx cs objs = (Inr r, objs', cs')"
      and "index + length txs = n"
  shows "if txs = [] then r = swapTx \<and> cs' = cs \<and> objs' = objs
         else \<exists>before s b objs0 objs1 objs2.
           cs' = before @ [SignTx (last txs) (Inr s), BroadcastTx s (Inr b), SaveTx s (Inr ())] \<and>
           r = Some b \<and>
           signTx w before objs0 (last txs) = (Inr s, objs1) \<and>
           broadcastTx w (before @ [SignTx (last txs) (Inr s)]) objs1 s = (Inr b, objs2) \<and>
           saveTx w (before @ [SignTx (last txs) (Inr s), BroadcastTx s (Inr b)])
             (objs2(last txs := (objs2 (last txs))\<lparr>tx_nativeAmount := ''-'' @ fna\<rparr>)) s =
             (Inr (), objs')"
  using assms
proof (induction txs arbitrary: index swapTx cs objs)
  case Nil
  then show ?case by simp
next
  case (Cons tx rest)
  show ?case
  proof (cases rule: approve_loop_round [of w cs objs tx fna n rest index swapTx])
    case (sign_refused reason objs1)
    with Cons.prems(1) show ?thesis by simp
  next
    case (broadcast_refused s objs1 reason objs2)
    with Cons.prems(1) show ?thesis by simp
  next
    case (save_refused s objs1 b objs2 reason objs4)
    with Cons.prems(1) show ?thesis by simp
  next
    case (saved s objs1 b objs2 objs4)
    from Cons.prems(1) have run: "approve_loop w fna n rest (index + 1) (Some b)
           (cs @ [SignTx tx (Inr s), BroadcastTx s (Inr b), SaveTx s (Inr ())]) objs4 =
           (Inr r, objs', cs')"
      unfolding saved(4) .
    from Cons.prems(2) have idx: "(index + 1) + length rest = n"
      by simp
    note ih = Cons.IH [OF run idx]
    show ?thesis
    proof (cases "rest = []")
      case True
      with Cons.prems(2) have "int index = int n - 1"
        by simp
      from True ih have f: "cs' = cs @ [SignTx tx (Inr s), BroadcastTx s (Inr b), SaveTx s (Inr ())]"
        "r = Some b" "objs' = objs4"
        by simp_all
      from saved(3) \<open>int index = int n - 1\<close> f(3) have sv:
        "saveTx w (cs @ [SignTx tx (Inr s), BroadcastTx s (Inr b)])
           (objs2(tx := (objs2 tx)\<lparr>tx_nativeAmount := ''-'' @ fna\<rparr>)) s = (Inr (), objs')"
        by simp
      have "\<exists>before s b objs0 objs1 objs2.
           cs' = before @ [SignTx tx (Inr s), BroadcastTx s (Inr b), SaveTx s (Inr ())] \<and>
           r = Some b \<and>
           signTx w before objs0 tx = (Inr s, objs1) \<and>
           broadcastTx w (before @ [SignTx tx (Inr s)]) objs1 s = (Inr b, objs2) \<and>
           saveTx w (before @ [SignTx tx (Inr s), BroadcastTx s (Inr b)])
             (objs2(tx := (objs2 tx)\<lparr>tx_nativeAmount := ''-'' @ fna\<rparr>)) s =
             (Inr (), objs')"
        by (intro exI conjI) (rule f(1), rule f(2), rule saved(1), rule saved(2), rule sv)
      with True show ?thesis
        by simp
    next
      case False
      with ih show ?thesis
        by simp
    qed
  qed
qed

lemma approve_loop_store:
  assumes sign: "\<And>cs objs r. tx_nativeAmount (snd (signTx w cs objs r) x) = tx_nativeAmount (objs x)"
      and broadcast:
        "\<And>cs objs r. tx_nativeAmount (snd (broadcastTx w cs objs r) x) = tx_nativeAmount (objs x)"
      and save: "\<And>cs objs r. tx_nativeAmount (snd (saveTx w cs objs r) x) = tx_nativeAmount (objs x)"
      and "index + length txs = n"
  shows "tx_nativeAmount (fst (snd (approve_loop w fna n txs index swapTx cs objs)) x) =
         (if txs \<noteq> [] \<and> x = last txs \<and>
             length (snd (snd (approve_loop w fna n txs index swapTx cs objs))) =
               length cs + 3 * length txs
          then ''-'' @ fna else tx_nativeAmount (objs x))"
  using assms(4)
proof (induction txs arbitrary: index swapTx cs objs)
  case Nil
  show ?case by simp
next
  case (Cons tx rest)
  have keep: "rest \<noteq> [] \<Longrightarrow> int index \<noteq> int n - 1"
    using Cons.prems by (cases rest) auto
  have at_end: "rest = [] \<Longrightarrow> int index = int n - 1"
    using Cons.prems by simp
  show ?case
  proof (cases rule: approve_loop_round [of w cs objs tx fna n rest index swapTx])
    case (sign_refused reason objs1)
    with sign [of cs objs tx] show ?thesis
      by simp
  next
    case (broadcast_refused s objs1 reason objs2)
    with sign [of cs objs tx] broadcast [of "cs @ [SignTx tx (Inr s)]" objs1 s] show ?thesis
      by simp
  next
    case (save_refused s objs1 b objs2 reason objs4)
    with sign [of cs objs tx] broadcast [of "cs @ [SignTx tx (Inr s)]" objs1 s]
      save [of "cs @ [SignTx tx (Inr s), BroadcastTx s (Inr b)]"
        "if int index = int n - 1
         then objs2(tx := (objs2 tx)\<lparr>tx_nativeAmount := ''-'' @ fna\<rparr>) else objs2" s]
      keep at_end
    show ?thesis
      by (cases "rest = []") simp_all
  next
    case (saved s objs1 b objs2 objs4)
    from Cons.prems have idx: "(index + 1) + length rest = n"
      by simp
    note ih = Cons.IH [OF idx, of "Some b"
        "cs @ [SignTx tx (Inr s), BroadcastTx s (Inr b), SaveTx s (Inr ())]" objs4]
    have o4: "tx_nativeAmount (objs4 x) =
        (if rest = [] \<and> x = tx then ''-'' @ fna else tx_nativeAmount (objs x))"
      using saved(1,2,3) sign [of cs objs tx] broadcast [of "cs @ [SignTx tx (Inr s)]" objs1 s]
      save [of "cs @ [SignTx tx (Inr s), BroadcastTx s (Inr b)]"
        "if int index = int n - 1
         then objs2(tx := (objs2 tx)\<lparr>tx_nativeAmount := ''-'' @ fna\<rparr>) else objs2" s]
      keep at_end
      by (cases "rest = []") simp_all
    show ?thesis
      unfolding saved(4) using ih o4
      by (cases "rest = []") simp_all
  qed
qed


lemma approve_calls: "calls (snd (approve q st)) =
    snd (snd (approve_loop (q_fromWallet q) (q_fromNativeAmount q) (length (q_txs q)) (q_txs q)
           0 None (calls st) (objects st)))"
  by (simp add: approve_def split: prod.splits sum.splits option.splits)

lemma approve_objects: "objects (snd (approve q st)) =
    fst (snd (approve_loop (q_fromWallet q) (q_fromNativeAmount q) (length (q_txs q)) (q_txs q)
           0 None (calls st) (objects st)))"
  by (simp add: approve_def split: prod.splits sum.splits option.splits)

lemma approve_isl: "isl (fst (approve q st)) \<longleftrightarrow>
    q_txs q = [] \<or>
    isl (fst (approve_loop (q_fromWallet q) (q_fromNativeAmount q) (length (q_txs q)) (q_txs q)
           0 None (calls st) (objects st)))"
proof (cases "approve_loop (q_fromWallet q) (q_fromNativeAmount q) (length (q_txs q)) (q_txs q)
           0 None (calls st) (objects st)")
  case (fields a objs' cs')
  show ?thesis
  proof (cases a)
    case (Inl e)
    with fields show ?thesis
      by (simp add: approve_def)
  next
    case (Inr r)
    from approve_loop_success [OF fields [unfolded Inr]]
    have "if q_txs q = [] then r = None else \<exists>b. r = Some b"
      by (auto split: if_splits)
    with fields Inr show ?thesis
      by (auto simp: approve_def split: if_splits)
  qed
qed

lemma approve_new_calls:
  "\<exists>new. calls (snd (approve q st)) = calls st @ new \<and>
     in_order new (q_txs q) \<and> no_call_after_failure new \<and>
     (some_call_failed new \<longrightarrow> isl (fst (approve q st))) \<and>
     (\<not> isl (fst (approve q st)) \<longrightarrow>
        q_txs q \<noteq> [] \<and> \<not> some_call_failed new \<and> length new = 3 * length (q_txs q)) \<and>
     (q_txs q \<noteq> [] \<and> \<not> some_call_failed new \<longrightarrow> \<not> isl (fst (approve q st)))"
  using approve_loop_calls [of "q_fromWallet q" "q_fromNativeAmount q" "length (q_txs q)"
      "q_txs q" 0 None "calls st" "objects st"]
  unfolding approve_calls approve_isl
  by (elim exE conjE, intro exI conjI impI) (assumption | simp)+

lemmas totle_example_defs = two_step_quote_def start_at_def example_store_def approval_tx_def
  swap_tx_def refusing_wallet_def copying_wallet_def eth_wallet_def token_request_def

text \<open>
  C5. The calls that \<^verbatim>\<open>approve\<close> makes on the wallet come after the earlier ones and follow
  the array: for each transaction in turn it is signed, then what the signing returned is
  broadcast and saved, and a transaction is signed only after the one before it was
  signed, broadcast and saved. Once the wallet has refused a call no other call is made,
  and then \<^verbatim>\<open>approve\<close> throws; a run that does not throw has made the three calls for every
  transaction. Every call in the record is a call that the wallet answered that way, after
  the calls before it.
\<close>

theorem approve_in_order:
  "\<exists>new. calls (snd (approve q st)) = calls st @ new \<and>
     in_order new (q_txs q) \<and> no_call_after_failure new \<and>
     (some_call_failed new \<longrightarrow> isl (fst (approve q st))) \<and>
     (\<not> isl (fst (approve q st)) \<longrightarrow> length new = 3 * length (q_txs q)) \<and>
     (\<forall>before e rest. new = before @ e # rest \<longrightarrow>
        (\<exists>objs. answered (q_fromWallet q) (calls st @ before) objs e))"
proof -
  from approve_new_calls [of q st] obtain new where n:
    "calls (snd (approve q st)) = calls st @ new"
    "in_order new (q_txs q)" "no_call_after_failure new"
    "some_call_failed new \<longrightarrow> isl (fst (approve q st))"
    "\<not> isl (fst (approve q st)) \<longrightarrow>
        q_txs q \<noteq> [] \<and> \<not> some_call_failed new \<and> length new = 3 * length (q_txs q)"
    "q_txs q \<noteq> [] \<and> \<not> some_call_failed new \<longrightarrow> \<not> isl (fst (approve q st))"
    by (elim exE conjE) (rule that)
  have a: "\<exists>objs. answered (q_fromWallet q) (calls st @ before) objs e"
    if "new = before @ e # rest" for before e rest
    using n(1) that approve_loop_answered [of "q_fromWallet q" "q_fromNativeAmount q"
        "length (q_txs q)" "q_txs q" 0 None "calls st" "objects st" before e rest]
    by (simp add: approve_calls)
  from n(5) have "\<not> isl (fst (approve q st)) \<longrightarrow> length new = 3 * length (q_txs q)"
    by simp
  with n(1-4) a show ?thesis
    by (intro exI [of _ new] conjI allI impI) (assumption | simp)+
qed

theorem approve_in_order_witness:
  "calls (snd (approve (two_step_quote\<lparr>q_fromWallet := refusing_wallet\<rparr>) (start_at 0))) =
     [SignTx 1 (Inr 1), BroadcastTx 1 (Inr 1), SaveTx 1 (Inr ()), SignTx 2 (Inl ''refused'')] \<and>
   in_order [SignTx 1 (Inr 1), BroadcastTx 1 (Inr 1), SaveTx 1 (Inr ()), SignTx 2 (Inl ''refused'')]
     [1, 2] \<and>
   no_call_after_failure
     [SignTx 1 (Inr 1), BroadcastTx 1 (Inr 1), SaveTx 1 (Inr ()), SignTx 2 (Inl ''refused'')] \<and>
   isl (fst (approve (two_step_quote\<lparr>q_fromWallet := refusing_wallet\<rparr>) (start_at 0))) \<and>
   \<not> isl (fst (approve two_step_quote (start_at 0))) \<and>
   length (calls (snd (approve two_step_quote (start_at 0)))) = 6"
proof -
  have c: "calls (snd (approve (two_step_quote\<lparr>q_fromWallet := refusing_wallet\<rparr>) (start_at 0))) =
     [SignTx 1 (Inr 1), BroadcastTx 1 (Inr 1), SaveTx 1 (Inr ()), SignTx 2 (Inl ''refused'')]"
    by (simp add: approve_def totle_example_defs Let_def)
  from approve_in_order [of "two_step_quote\<lparr>q_fromWallet := refusing_wallet\<rparr>" "start_at 0"]
  obtain new where n:
    "calls (snd (approve (two_step_quote\<lparr>q_fromWallet := refusing_wallet\<rparr>) (start_at 0))) =
       calls (start_at 0) @ new"
    "in_order new (q_txs (two_step_quote\<lparr>q_fromWallet := refusing_wallet\<rparr>))"
    "no_call_after_failure new"
    "some_call_failed new \<longrightarrow>
       isl (fst (approve (two_step_quote\<lparr>q_fromWallet := refusing_wallet\<rparr>) (start_at 0)))"
    by (elim exE conjE) (rule that)
  from n(1) c have new: "new =
     [SignTx 1 (Inr 1), BroadcastTx 1 (Inr 1), SaveTx 1 (Inr ()), SignTx 2 (Inl ''refused'')]"
    by (simp add: start_at_def)
  from n(2,3,4) have w1:
    "in_order [SignTx 1 (Inr 1), BroadcastTx 1 (Inr 1), SaveTx 1 (Inr ()), SignTx 2 (Inl ''refused'')]
       [1, 2]"
    "no_call_after_failure
       [SignTx 1 (Inr 1), BroadcastTx 1 (Inr 1), SaveTx 1 (Inr ()), SignTx 2 (Inl ''refused'')]"
    "isl (fst (approve (two_step_quote\<lparr>q_fromWallet := refusing_wallet\<rparr>) (start_at 0)))"
    unfolding new by (simp_all add: two_step_quote_def)
  have ok: "\<not> isl (fst (approve two_step_quote (start_at 0)))"
    by (simp add: approve_def totle_example_defs Let_def)
  from approve_in_order [of two_step_quote "start_at 0"]
  obtain new2 where n2:
    "calls (snd (approve two_step_quote (start_at 0))) = calls (start_at 0) @ new2"
    "\<not> isl (fst (approve two_step_quote (start_at 0))) \<longrightarrow>
       length new2 = 3 * length (q_txs two_step_quote)"
    by (elim exE conjE) (rule that)
  with ok have w2: "length (calls (snd (approve two_step_quote (start_at 0)))) = 6"
    by (simp add: start_at_def two_step_quote_def)
  from c w1 ok w2 show ?thesis
    by simp
qed

section \<open>The totle plugin: the last transaction\<close>

lemma quote_from_last:
  assumes ne: "txs \<noteq> []"
  shows "makeTotleSwapPluginQuote request fromNativeAmount toNativeAmount txs
        destinationAddress isEstimate expirationDate store0 =
      Inr \<lparr>q_fromNativeAmount = fromNativeAmount,
           q_toNativeAmount = toNativeAmount,
           q_networkFee =
             \<lparr>fee_currencyCode = wallet_currencyCode (fromWallet request),
              fee_nativeAmount = (case parentNetworkFee (store0 (last txs)) of
                                    Some fee \<Rightarrow> fee | None \<Rightarrow> networkFee (store0 (last txs)))\<rparr>,
           q_destinationAddress = destinationAddress,
           q_pluginId = totle_pluginId,
           q_expirationDate = expirationDate,
           q_isEstimate = isEstimate,
           q_fromWallet = fromWallet request,
           q_txs = txs\<rparr>"
proof -
  from ne have "txs ! (length txs - 1) = last txs"
    by (simp add: last_conv_nth)
  with ne show ?thesis
    by (cases "parentNetworkFee (store0 (last txs))")
       (simp_all add: makeTotleSwapPluginQuote_def Let_def)
qed

lemma approve_returns_iff:
  "(\<exists>result. fst (approve q st) = Inr result) \<longleftrightarrow>
      q_txs q \<noteq> [] \<and>
      \<not> some_call_failed (drop (length (calls st)) (calls (snd (approve q st))))"
proof -
  from approve_new_calls [of q st] obtain new where n:
    "calls (snd (approve q st)) = calls st @ new"
    "in_order new (q_txs q)" "no_call_after_failure new"
    "some_call_failed new \<longrightarrow> isl (fst (approve q st))"
    "\<not> isl (fst (approve q st)) \<longrightarrow>
        q_txs q \<noteq> [] \<and> \<not> some_call_failed new \<and> length new = 3 * length (q_txs q)"
    "q_txs q \<noteq> [] \<and> \<not> some_call_failed new \<longrightarrow> \<not> isl (fst (approve q st))"
    by (elim exE conjE) (rule that)
  have e: "(\<exists>result. fst (approve q st) = Inr result) \<longleftrightarrow> \<not> isl (fst (approve q st))"
    by (cases "fst (approve q st)") simp_all
  from n(1) have d: "drop (length (calls st)) (calls (snd (approve q st))) = new"
    by simp
  show ?thesis
    unfolding d e using n(5,6) by (cases "isl (fst (approve q st))") simp_all
qed

lemma approve_result:
  assumes a: "approve q st = (Inr res, st')"
  shows "(\<exists>before signed objs0 objs1 objs2.
         calls st' =
           before @ [SignTx (last (q_txs q)) (Inr signed),
                     BroadcastTx signed (Inr (res_transaction res)), SaveTx signed (Inr ())] \<and>
         signTx (q_fromWallet q) before objs0 (last (q_txs q)) = (Inr signed, objs1) \<and>
         broadcastTx (q_fromWallet q) (before @ [SignTx (last (q_txs q)) (Inr signed)])
           objs1 signed = (Inr (res_transaction res), objs2) \<and>
         saveTx (q_fromWallet q)
           (before @ [SignTx (last (q_txs q)) (Inr signed),
                      BroadcastTx signed (Inr (res_transaction res))])
           (objs2(last (q_txs q) :=
              (objs2 (last (q_txs q)))\<lparr>tx_nativeAmount := ''-'' @ q_fromNativeAmount q\<rparr>))
           signed = (Inr (), objects st')) \<and>
      res_orderId res = txid (objects st' (res_transaction res)) \<and>
      res_destinationAddress res = q_destinationAddress q"
proof (intro conjI)
  obtain r objs' cs' where run:
    "approve_loop (q_fromWallet q) (q_fromNativeAmount q) (length (q_txs q)) (q_txs q)
           0 None (calls st) (objects st) = (r, objs', cs')"
    by (cases "approve_loop (q_fromWallet q) (q_fromNativeAmount q) (length (q_txs q)) (q_txs q)
           0 None (calls st) (objects st)") auto
  from a run obtain swapTx where r: "r = Inr (Some swapTx)"
    and res: "res = \<lparr>res_transaction = swapTx, res_destinationAddress = q_destinationAddress q,
                      res_orderId = txid (objs' swapTx)\<rparr>"
    and st': "st' = st\<lparr>objects := objs', calls := cs'\<rparr>"
    by (auto simp: approve_def split: sum.splits option.splits)
  have ne: "q_txs q \<noteq> []"
  proof
    assume "q_txs q = []"
    with approve_loop_success [OF run [unfolded r]] show False
      by simp
  qed
  from approve_loop_success [OF run [unfolded r]] ne
  have s: "\<exists>before s b objs0 objs1 objs2.
           cs' = before @ [SignTx (last (q_txs q)) (Inr s), BroadcastTx s (Inr b),
                           SaveTx s (Inr ())] \<and>
           Some swapTx = Some b \<and>
           signTx (q_fromWallet q) before objs0 (last (q_txs q)) = (Inr s, objs1) \<and>
           broadcastTx (q_fromWallet q) (before @ [SignTx (last (q_txs q)) (Inr s)]) objs1 s =
             (Inr b, objs2) \<and>
           saveTx (q_fromWallet q)
             (before @ [SignTx (last (q_txs q)) (Inr s), BroadcastTx s (Inr b)])
             (objs2(last (q_txs q) :=
                (objs2 (last (q_txs q)))\<lparr>tx_nativeAmount := ''-'' @ q_fromNativeAmount q\<rparr>)) s =
             (Inr (), objs')"
    by (simp only: if_False add_0 simp_thms)
  then obtain before s b objs0 objs1 objs2 where f:
    "cs' = before @ [SignTx (last (q_txs q)) (Inr s), BroadcastTx s (Inr b), SaveTx s (Inr ())]"
    "b = swapTx"
    "signTx (q_fromWallet q) before objs0 (last (q_txs q)) = (Inr s, objs1)"
    "broadcastTx (q_fromWallet q) (before @ [SignTx (last (q_txs q)) (Inr s)]) objs1 s =
       (Inr b, objs2)"
    "saveTx (q_fromWallet q)
       (before @ [SignTx (last (q_txs q)) (Inr s), BroadcastTx s (Inr b)])
       (objs2(last (q_txs q) :=
          (objs2 (last (q_txs q)))\<lparr>tx_nativeAmount := ''-'' @ q_fromNativeAmount q\<rparr>)) s =
       (Inr (), objs')"
    by auto
  have t: "res_transaction res = b" "objects st' = objs'" "calls st' = cs'"
    using res st' f(2) by simp_all
  show "\<exists>before signed objs0 objs1 objs2.
         calls st' =
           before @ [SignTx (last (q_txs q)) (Inr signed),
                     BroadcastTx signed (Inr (res_transaction res)), SaveTx signed (Inr ())] \<and>
         signTx (q_fromWallet q) before objs0 (last (q_txs q)) = (Inr signed, objs1) \<and>
         broadcastTx (q_fromWallet q) (before @ [SignTx (last (q_txs q)) (Inr signed)])
           objs1 signed = (Inr (res_transaction res), objs2) \<and>
         saveTx (q_fromWallet q)
           (before @ [SignTx (last (q_txs q)) (Inr signed),
                      BroadcastTx signed (Inr (res_transaction res))])
           (objs2(last (q_txs q) :=
              (objs2 (last (q_txs q)))\<lparr>tx_nativeAmount := ''-'' @ q_fromNativeAmount q\<rparr>))
           signed = (Inr (), objects st')"
    unfolding t
    by (intro exI conjI) (rule f(1), rule f(3), rule f(4), rule f(5))
  from res st' show "res_orderId res = txid (objects st' (res_transaction res))"
    "res_destinationAddress res = q_destinationAddress q"
    by simp_all
qed

lemma approve_native_amounts:
  assumes k: "(\<forall>cs objs r. tx_nativeAmount (snd (signTx (q_fromWallet q) cs objs r) x) =
                  tx_nativeAmount (objs x)) \<and>
    (\<forall>cs objs r. tx_nativeAmount (snd (broadcastTx (q_fromWallet q) cs objs r) x) =
                  tx_nativeAmount (objs x)) \<and>
    (\<forall>cs objs r. tx_nativeAmount (snd (saveTx (q_fromWallet q) cs objs r) x) =
                  tx_nativeAmount (objs x))"
  shows "tx_nativeAmount (objects (snd (approve q st)) x) =
        (if q_txs q \<noteq> [] \<and> x = last (q_txs q) \<and>
            length (calls (snd (approve q st))) = length (calls st) + 3 * length (q_txs q)
         then ''-'' @ q_fromNativeAmount q else tx_nativeAmount (objects st x))"
proof -
  show ?thesis
    unfolding approve_calls approve_objects
    by (rule approve_loop_store) (use k in simp_all)
qed

text \<open>
  C9. For an array that is not empty \<^verbatim>\<open>makeTotleSwapPluginQuote\<close> returns the quote, whose
  network fee is read from the last transaction of the array (its \<^verbatim>\<open>parentNetworkFee\<close> if
  it has one, else its \<^verbatim>\<open>networkFee\<close>). \<^verbatim>\<open>approve\<close> returns a result exactly when the array
  is not empty and the wallet refuses none of its calls. When it does, its last three
  calls sign the last transaction of the array and broadcast and save what the signing
  returned; \<^verbatim>\<open>saveTx\<close> is given the store in which the \<^verbatim>\<open>nativeAmount\<close> of the last
  transaction has been set to \<^verbatim>\<open>fromNativeAmount\<close> with a minus sign in front; the
  transaction of the result is what that broadcast returned, and the \<^verbatim>\<open>orderId\<close> is its
  \<^verbatim>\<open>txid\<close>. And in every run, for every object whose \<^verbatim>\<open>nativeAmount\<close> the wallet's own
  methods leave alone: if it is the last transaction of the array and that one has been
  signed and broadcast (the run has then made three calls for every transaction), its
  \<^verbatim>\<open>nativeAmount\<close> is now the negated \<^verbatim>\<open>fromNativeAmount\<close>; if not, its \<^verbatim>\<open>nativeAmount\<close>
  is what it was: \<^verbatim>\<open>approve\<close> gives the earlier transactions no amount.
\<close>

theorem last_transaction_is_the_swap:
  "(txs \<noteq> [] \<longrightarrow>
      makeTotleSwapPluginQuote request fromNativeAmount toNativeAmount txs destinationAddress
        isEstimate expirationDate store0 =
      Inr \<lparr>q_fromNativeAmount = fromNativeAmount,
           q_toNativeAmount = toNativeAmount,
           q_networkFee =
             \<lparr>fee_currencyCode = wallet_currencyCode (fromWallet request),
              fee_nativeAmount = (case parentNetworkFee (store0 (last txs)) of
                                    Some fee \<Rightarrow> fee | None \<Rightarrow> networkFee (store0 (last txs)))\<rparr>,
           q_destinationAddress = destinationAddress,
           q_pluginId = totle_pluginId,
           q_expirationDate = expirationDate,
           q_isEstimate = isEstimate,
           q_fromWallet = fromWallet request,
           q_txs = txs\<rparr>) \<and>
   ((\<exists>result. fst (approve q st) = Inr result) \<longleftrightarrow>
      q_txs q \<noteq> [] \<and>
      \<not> some_call_failed (drop (length (calls st)) (calls (snd (approve q st))))) \<and>
   (approve q st = (Inr res, st') \<longrightarrow>
      (\<exists>before signed objs0 objs1 objs2.
         calls st' =
           before @ [SignTx (last (q_txs q)) (Inr signed),
                     BroadcastTx signed (Inr (res_transaction res)), SaveTx signed (Inr ())] \<and>
         signTx (q_fromWallet q) before objs0 (last (q_txs q)) = (Inr signed, objs1) \<and>
         broadcastTx (q_fromWallet q) (before @ [SignTx (last (q_txs q)) (Inr signed)])
           objs1 signed = (Inr (res_transaction res), objs2) \<and>
         saveTx (q_fromWallet q)
           (before @ [SignTx (last (q_txs q)) (Inr signed),
                      BroadcastTx signed (Inr (res_transaction res))])
           (objs2(last (q_txs q) :=
              (objs2 (last (q_txs q)))\<lparr>tx_nativeAmount := ''-'' @ q_fromNativeAmount q\<rparr>))
           signed = (Inr (), objects st')) \<and>
      res_orderId res = txid (objects st' (res_transaction res)) \<and>
      res_destinationAddress res = q_destinationAddress q) \<and>
   ((\<forall>cs objs r. tx_nativeAmount (snd (signTx (q_fromWallet q) cs objs r) x) =
                  tx_nativeAmount (objs x)) \<and>
    (\<forall>cs objs r. tx_nativeAmount (snd (broadcastTx (q_fromWallet q) cs objs r) x) =
                  tx_nativeAmount (objs x)) \<and>
    (\<forall>cs objs r. tx_nativeAmount (snd (saveTx (q_fromWallet q) cs objs r) x) =
                  tx_nativeAmount (objs x)) \<longrightarrow>
      tx_nativeAmount (objects (snd (approve q st)) x) =
        (if q_txs q \<noteq> [] \<and> x = last (q_txs q) \<and>
            length (calls (snd (approve q st))) = length (calls st) + 3 * length (q_txs q)
         then ''-'' @ q_fromNativeAmount q else tx_nativeAmount (objects st x)))"
proof (intro conjI impI)
  assume "txs \<noteq> []"
  then show "makeTotleSwapPluginQuote request fromNativeAmount toNativeAmount txs destinationAddress
        isEstimate expirationDate store0 =
      Inr \<lparr>q_fromNativeAmount = fromNativeAmount,
           q_toNativeAmount = toNativeAmount,
           q_networkFee =
             \<lparr>fee_currencyCode = wallet_currencyCode (fromWallet request),
              fee_nativeAmount = (case parentNetworkFee (store0 (last txs)) of
                                    Some fee \<Rightarrow> fee | None \<Rightarrow> networkFee (store0 (last txs)))\<rparr>,
           q_destinationAddress = destinationAddress,
           q_pluginId = totle_pluginId,
           q_expirationDate = expirationDate,
           q_isEstimate = isEstimate,
           q_fromWallet = fromWallet request,
           q_txs = txs\<rparr>"
    by (rule quote_from_last)
next
  show "(\<exists>result. fst (approve q st) = Inr result) \<longleftrightarrow>
      q_txs q \<noteq> [] \<and>
      \<not> some_call_failed (drop (length (calls st)) (calls (snd (approve q st))))"
    by (rule approve_returns_iff)
next
  assume a: "approve q st = (Inr res, st')"
  note r = approve_result [OF a]
  from r show "\<exists>before signed objs0 objs1 objs2.
         calls st' =
           before @ [SignTx (last (q_txs q)) (Inr signed),
                     BroadcastTx signed (Inr (res_transaction res)), SaveTx signed (Inr ())] \<and>
         signTx (q_fromWallet q) before objs0 (last (q_txs q)) = (Inr signed, objs1) \<and>
         broadcastTx (q_fromWallet q) (before @ [SignTx (last (q_txs q)) (Inr signed)])
           objs1 signed = (Inr (res_transaction res), objs2) \<and>
         saveTx (q_fromWallet q)
           (before @ [SignTx (last (q_txs q)) (Inr signed),
                      BroadcastTx signed (Inr (res_transaction res))])
           (objs2(last (q_txs q) :=
              (objs2 (last (q_txs q)))\<lparr>tx_nativeAmount := ''-'' @ q_fromNativeAmount q\<rparr>))
           signed = (Inr (), objects st')"
    by (rule conjunct1)
  from r show "res_orderId res = txid (objects st' (res_transaction res))"
    by (rule conjunct2 [THEN conjunct1])
  from r show "res_destinationAddress res = q_destinationAddress q"
    by (rule conjunct2 [THEN conjunct2])
next
  assume "(\<forall>cs objs r. tx_nativeAmount (snd (signTx (q_fromWallet q) cs objs r) x) =
                  tx_nativeAmount (objs x)) \<and>
    (\<forall>cs objs r. tx_nativeAmount (snd (broadcastTx (q_fromWallet q) cs objs r) x) =
                  tx_nativeAmount (objs x)) \<and>
    (\<forall>cs objs r. tx_nativeAmount (snd (saveTx (q_fromWallet q) cs objs r) x) =
                  tx_nativeAmount (objs x))"
  then show "tx_nativeAmount (objects (snd (approve q st)) x) =
        (if q_txs q \<noteq> [] \<and> x = last (q_txs q) \<and>
            length (calls (snd (approve q st))) = length (calls st) + 3 * length (q_txs q)
         then ''-'' @ q_fromNativeAmount q else tx_nativeAmount (objects st x))"
    by (rule approve_native_amounts)
qed

theorem last_transaction_is_the_swap_witness:
  "makeTotleSwapPluginQuote token_request ''5000'' ''4990'' [1, 2] ''0x-public'' False (Some 1000)
      example_store = Inr two_step_quote \<and>
   parentNetworkFee (example_store 2) = Some ''90000'' \<and>
   fee_nativeAmount (q_networkFee two_step_quote) = ''90000'' \<and>
   fst (approve two_step_quote (start_at 0)) =
     Inr \<lparr>res_transaction = 2, res_destinationAddress = ''0x-public'', res_orderId = ''tx-swap''\<rparr> \<and>
   tx_nativeAmount (objects (start_at 0) 2) = ''0'' \<and>
   tx_nativeAmount (objects (snd (approve two_step_quote (start_at 0))) 2) = ''-5000'' \<and>
   tx_nativeAmount (objects (snd (approve two_step_quote (start_at 0))) 1) = ''0''"
proof -
  note q = last_transaction_is_the_swap [where txs = "[1, 2]"
      and request = token_request and fromNativeAmount = "''5000''" and toNativeAmount = "''4990''"
      and destinationAddress = "''0x-public''" and isEstimate = False
      and expirationDate = "Some 1000" and ?store0.0 = example_store, THEN conjunct1]
  from q have m: "makeTotleSwapPluginQuote token_request ''5000'' ''4990'' [1, 2] ''0x-public''
      False (Some 1000) example_store = Inr two_step_quote"
    by (simp add: totle_example_defs totle_pluginId_def)
  have e: "parentNetworkFee (example_store 2) = Some ''90000''"
    "fee_nativeAmount (q_networkFee two_step_quote) = ''90000''"
    "tx_nativeAmount (objects (start_at 0) 2) = ''0''"
    "tx_nativeAmount (objects (start_at 0) 1) = ''0''"
    by (simp_all add: totle_example_defs)
  have r: "fst (approve two_step_quote (start_at 0)) =
     Inr \<lparr>res_transaction = 2, res_destinationAddress = ''0x-public'', res_orderId = ''tx-swap''\<rparr>"
    by (simp add: approve_def totle_example_defs Let_def)
  have c: "length (calls (snd (approve two_step_quote (start_at 0)))) = 6"
    "length (calls (start_at 0)) = 0" "q_txs two_step_quote = [1, 2]"
    "q_fromNativeAmount two_step_quote = ''5000''"
    by (simp_all add: approve_def totle_example_defs Let_def)
  have k: "\<forall>cs objs r. tx_nativeAmount (snd (signTx (q_fromWallet two_step_quote) cs objs r) x) =
                  tx_nativeAmount (objs x)"
    "\<forall>cs objs r. tx_nativeAmount (snd (broadcastTx (q_fromWallet two_step_quote) cs objs r) x) =
                  tx_nativeAmount (objs x)"
    "\<forall>cs objs r. tx_nativeAmount (snd (saveTx (q_fromWallet two_step_quote) cs objs r) x) =
                  tx_nativeAmount (objs x)" for x
    by (simp_all add: two_step_quote_def eth_wallet_def)
  note a = last_transaction_is_the_swap [where q = two_step_quote and st = "start_at 0",
      THEN conjunct2, THEN conjunct2, THEN conjunct2]
  from a [of 2] k [of 2] c e have w2:
    "tx_nativeAmount (objects (snd (approve two_step_quote (start_at 0))) 2) = ''-5000''"
    by simp
  from a [of 1] k [of 1] c e have w1:
    "tx_nativeAmount (objects (snd (approve two_step_quote (start_at 0))) 1) = ''0''"
    by simp
  from m e r w1 w2 show ?thesis
    by simp
qed

text \<open>
  The two kinds of wallet side by side. With the wallet that signs in place, the
  transaction that is saved and returned is the last transaction of the array itself,
  object 2, and it carries the negated amount. With the wallet whose \<^verbatim>\<open>signTx\<close> returns a
  new object, the transaction returned is that copy, object 12, made before the
  assignment: the amount is written to object 2 only.
\<close>

lemma approve_signed_in_place_or_copied:
  "res_transaction (projr (fst (approve two_step_quote (start_at 0)))) = 2 \<and>
   tx_nativeAmount (objects (snd (approve two_step_quote (start_at 0))) 2) = ''-5000'' \<and>
   res_transaction (projr (fst (approve (two_step_quote\<lparr>q_fromWallet := copying_wallet\<rparr>)
      (start_at 0)))) = 12 \<and>
   tx_nativeAmount (objects (snd (approve (two_step_quote\<lparr>q_fromWallet := copying_wallet\<rparr>)
      (start_at 0))) 12) = ''0'' \<and>
   tx_nativeAmount (objects (snd (approve (two_step_quote\<lparr>q_fromWallet := copying_wallet\<rparr>)
      (start_at 0))) 2) = ''-5000''"
  by (simp add: approve_def totle_example_defs Let_def)

section \<open>The totle plugin: expiration\<close>

lemma approve_expiration: "approve (q\<lparr>q_expirationDate := e\<rparr>) (st\<lparr>clock := t\<rparr>) =
    (fst (approve q st), (snd (approve q st))\<lparr>clock := t\<rparr>)"
  by (simp add: approve_def split: prod.splits sum.splits option.splits)

lemma approve_first_call:
  assumes "q_txs q \<noteq> []"
  shows "\<exists>answer rest. calls (snd (approve q st)) = calls st @ SignTx (hd (q_txs q)) answer # rest"
proof -
  from approve_new_calls [of q st] obtain new where n:
    "calls (snd (approve q st)) = calls st @ new"
    "in_order new (q_txs q)" "no_call_after_failure new"
    "some_call_failed new \<longrightarrow> isl (fst (approve q st))"
    "\<not> isl (fst (approve q st)) \<longrightarrow>
        q_txs q \<noteq> [] \<and> \<not> some_call_failed new \<and> length new = 3 * length (q_txs q)"
    "q_txs q \<noteq> [] \<and> \<not> some_call_failed new \<longrightarrow> \<not> isl (fst (approve q st))"
    by (elim exE conjE) (rule that)
  from assms n(5,6) have "new \<noteq> []"
    by (cases "isl (fst (approve q st))") auto
  with n(2) assms obtain answer rest where "new = SignTx (hd (q_txs q)) answer # rest"
    by (cases "(new, q_txs q)" rule: in_order.cases) auto
  with n(1) show ?thesis
    by simp
qed

text \<open>
  C7 (as amended). \<^verbatim>\<open>approve\<close> checks no expiration: it never reads the quote's
  \<^verbatim>\<open>expirationDate\<close> nor the time, so its result, its calls on the wallet and what it does
  to the transactions are the same whatever they are; and whenever the quote has a
  transaction, the first thing \<^verbatim>\<open>approve\<close> does is to sign the first one.
\<close>

theorem approve_ignores_expiration:
  "approve (q\<lparr>q_expirationDate := e\<rparr>) (st\<lparr>clock := t\<rparr>) =
     (fst (approve q st), (snd (approve q st))\<lparr>clock := t\<rparr>) \<and>
   (q_txs q \<noteq> [] \<longrightarrow>
      (\<exists>answer rest.
         calls (snd (approve q st)) = calls st @ SignTx (hd (q_txs q)) answer # rest))"
proof (intro conjI impI)
  show "approve (q\<lparr>q_expirationDate := e\<rparr>) (st\<lparr>clock := t\<rparr>) =
     (fst (approve q st), (snd (approve q st))\<lparr>clock := t\<rparr>)"
    by (rule approve_expiration)
next
  assume "q_txs q \<noteq> []"
  then show "\<exists>answer rest.
         calls (snd (approve q st)) = calls st @ SignTx (hd (q_txs q)) answer # rest"
    by (rule approve_first_call)
qed

theorem approve_ignores_expiration_witness:
  "approve (two_step_quote\<lparr>q_expirationDate := Some 5000\<rparr>) ((start_at 2000)\<lparr>clock := 3000\<rparr>) =
     (fst (approve two_step_quote (start_at 2000)),
      (snd (approve two_step_quote (start_at 2000)))\<lparr>clock := 3000\<rparr>) \<and>
   (\<exists>answer rest. calls (snd (approve two_step_quote (start_at 2000))) = SignTx 1 answer # rest)"
  using approve_ignores_expiration [where q = two_step_quote and e = "Some 5000"
      and st = "start_at 2000" and t = 3000]
  by (simp add: start_at_def two_step_quote_def)

text \<open>
  The claim C7 as it is stated fails: the quote's expiration date is 1000, \<^verbatim>\<open>approve\<close> is
  called at time 2000, and it is not rejected: both transactions are signed, broadcast
  and saved.
\<close>

theorem expired_quote_counterexample:
  "q_expirationDate two_step_quote = Some 1000 \<and> clock (start_at 2000) = 2000 \<and>
   q_txs two_step_quote = [1, 2] \<and>
   \<not> isl (fst (approve two_step_quote (start_at 2000))) \<and>
   calls (snd (approve two_step_quote (start_at 2000))) =
     [SignTx 1 (Inr 1), BroadcastTx 1 (Inr 1), SaveTx 1 (Inr ()),
      SignTx 2 (Inr 2), BroadcastTx 2 (Inr 2), SaveTx 2 (Inr ())]"
  by (simp add: approve_def totle_example_defs Let_def)

end
